theory Spec2Isabelle
  imports Main "HOL-Library.AList"
begin

section \<open>Certificate tracking: pkg/ingress/controller/backend_ssl.go\<close>

subsection \<open>Data\<close>

text \<open>
  Go byte slices are byte strings; a slice that may be \<open>nil\<close> is a \<open>bytes option\<close>
  (\<open>None\<close> is the nil slice, \<open>Some []\<close> the empty, non-nil one).
\<close>

type_synonym bytes = string

text \<open>
  A Kubernetes secret as \<open>getPemCertificate\<close> reads it: its name, its namespace and the
  \<open>Data\<close> map from field name to byte slice. A key of the map may be bound to a nil
  slice, so a lookup yields \<open>None\<close> (key absent), \<open>Some None\<close> (key bound to nil) or
  \<open>Some (Some bs)\<close>.
\<close>

record Secret =
  Secret_Name :: string
  Secret_Namespace :: string
  Data :: "string \<rightharpoonup> bytes option"

text \<open>
  Modelled from the spec: the declaration of \<open>ingress.SSLCert\<close> is not part of the
  two source files. The fields are the attributes the spec lists for a Certificate
  Record (raw certificate bytes, optional raw key bytes, optional raw CA bytes, derived
  common names, base PEM path, full-chain PEM path, owning namespace and name); the
  record's identifier is the key under which the store holds it. \<open>Name\<close>,
  \<open>Namespace\<close>, \<open>CN\<close>, \<open>PemFileName\<close> and \<open>FullChainPemFileName\<close> carry the names
  the source uses for them. An optional field that is absent is empty, as a Go string
  or slice field that was never set.
\<close>

record SSLCert =
  Name :: string
  Namespace :: string
  Certificate :: bytes
  Key :: bytes
  CA :: bytes
  CN :: "string list"
  PemFileName :: string
  FullChainPemFileName :: string

text \<open>
  Modelled from the spec: \<open>SSLCert.Equal\<close> is not part of the two source files. The
  spec says two records are content-equal when their raw certificate bytes are equal.
\<close>

definition Equal :: "SSLCert \<Rightarrow> SSLCert \<Rightarrow> bool" where
  "Equal s1 s2 = (Certificate s1 = Certificate s2)"

text \<open>An ingress rule as \<open>checkMissingSecrets\<close> reads it.\<close>

record IngressTLS =
  SecretName :: string

record Ingress =
  Ingress_Namespace :: string
  TLS :: "IngressTLS list"
  Annotations :: "string \<rightharpoonup> string"

text \<open>
  The errors \<open>getPemCertificate\<close> returns, one constructor for each \<open>fmt.Errorf\<close> of
  the source, carrying the secret name or the library's error text it formats.
\<close>

datatype error =
    ErrRetrievingSecret string
  | ErrNoTLSCrt string
  | ErrNoTLSKey string
  | ErrCreatingPemFile string
  | ErrNoKeypairOrCA string

text \<open>
  Everything the controller reads and calls but does not own. The listers are the
  informer caches; the other fields are functions of packages outside the two source
  files (\<open>pkg/net/ssl\<close>, \<open>io/ioutil\<close>, \<open>annotations/class\<close>, \<open>annotations/parser\<close>) and
  the constant \<open>ingress.DefaultSSLDirectory\<close>. They are parameters: every theorem below
  holds whatever they compute. A library call that fails returns \<open>Inl\<close> with its error
  text; \<open>WriteFile\<close> says whether writing the given bytes to the given path succeeds.
\<close>

record env =
  listers_Secret :: "string \<rightharpoonup> Secret"
  listers_Ingress :: "Ingress list"
  AddOrUpdateCertAndKey :: "string \<Rightarrow> bytes \<Rightarrow> bytes \<Rightarrow> bytes option \<Rightarrow> string + SSLCert"
  AddCertAuth :: "string \<Rightarrow> bytes \<Rightarrow> string + SSLCert"
  FullChainCert :: "string \<Rightarrow> string + bytes"
  WriteFile :: "string \<Rightarrow> bytes \<Rightarrow> bool"
  DefaultSSLDirectory :: string
  IsValid :: "Ingress \<Rightarrow> bool"
  GetStringAnnotation :: "string \<Rightarrow> Ingress \<Rightarrow> string"

subsection \<open>The certificate store and the effects of the controller\<close>

text \<open>
  Modelled from the spec: \<open>sslCertTracker\<close> wraps a keyed store whose code is not part
  of the two source files. The spec describes a mapping from identifier to record with
  get, add, update and list-keys. It is an association list with one entry for each
  key: \<open>Add\<close> and \<open>Update\<close> both bind the key, replacing an entry that is there.
\<close>

type_synonym store = "(string \<times> SSLCert) list"

definition Get :: "store \<Rightarrow> string \<Rightarrow> SSLCert option" where
  "Get st key = map_of st key"

definition Add :: "string \<Rightarrow> SSLCert \<Rightarrow> store \<Rightarrow> store" where
  "Add key cert st = AList.update key cert st"

definition Update :: "string \<Rightarrow> SSLCert \<Rightarrow> store \<Rightarrow> store" where
  "Update key cert st = AList.update key cert st"

definition ListKeys :: "store \<Rightarrow> string list" where
  "ListKeys st = map fst st"

text \<open>
  What a controller function does besides changing the store, in the order it does it:
  \<^item> \<open>SyncStarted key\<close>: \<open>syncSecret key\<close> was entered (its first log line);
  \<^item> \<open>TrackerAdd\<close>, \<open>TrackerUpdate\<close>: a call of \<open>sslCertTracker.Add\<close> or \<open>.Update\<close>;
  \<^item> \<open>Enqueue\<close>: \<open>syncQueue.Enqueue(&networking.Ingress{})\<close>, the reconfiguration
    signal;
  \<^item> \<open>ChainResolution key pem\<close>: \<open>ssl.FullChainCert pem\<close> was called for the record
    stored under \<open>key\<close>;
  \<^item> \<open>FileWrite path data ok\<close>: \<open>ioutil.WriteFile path data 0600\<close> was called and
    succeeded or not.
\<close>

datatype effect =
    SyncStarted string
  | TrackerAdd string SSLCert
  | TrackerUpdate string SSLCert
  | Enqueue
  | ChainResolution string string
  | FileWrite string bytes bool

fun is_mutation :: "effect \<Rightarrow> bool" where
  "is_mutation (TrackerAdd _ _) = True"
| "is_mutation (TrackerUpdate _ _) = True"
| "is_mutation _ = False"

definition mutations :: "effect list \<Rightarrow> nat" where
  "mutations evs = length (filter is_mutation evs)"

definition signals :: "effect list \<Rightarrow> nat" where
  "signals evs = count_list evs Enqueue"

subsection \<open>getPemCertificate\<close>

text \<open>\<open>strings.Replace(secretName, "/", "-", -1)\<close>: every slash becomes a dash.\<close>

definition replace_slashes :: "string \<Rightarrow> string" where
  "replace_slashes s = map (\<lambda>c. if c = CHR ''/'' then CHR ''-'' else c) s"

text \<open>
  \<open>v, ok := m[k]\<close> on a Go map of byte slices: the slice (nil when the key is absent)
  and whether the key is there.
\<close>

definition comma_ok :: "(string \<rightharpoonup> bytes option) \<Rightarrow> string \<Rightarrow> bytes option \<times> bool" where
  "comma_ok m k = (case m k of None \<Rightarrow> (None, False) | Some v \<Rightarrow> (v, True))"

definition getPemCertificate :: "env \<Rightarrow> string \<Rightarrow> error + SSLCert" where
  "getPemCertificate E secretName =
     (case listers_Secret E secretName of
        None \<Rightarrow> Inl (ErrRetrievingSecret secretName)
      | Some secret \<Rightarrow>
          (let (cert, okcert) = comma_ok (Data secret) ''tls.crt'';
               (key, okkey) = comma_ok (Data secret) ''tls.key'';
               ca = fst (comma_ok (Data secret) ''ca.crt'');
               nsSecName = replace_slashes secretName
           in if okcert \<and> okkey then
                (case cert of
                   None \<Rightarrow> Inl (ErrNoTLSCrt secretName)
                 | Some certBytes \<Rightarrow>
                     (case key of
                        None \<Rightarrow> Inl (ErrNoTLSKey secretName)
                      | Some keyBytes \<Rightarrow>
                          (case AddOrUpdateCertAndKey E nsSecName certBytes keyBytes ca of
                             Inl err \<Rightarrow> Inl (ErrCreatingPemFile err)
                           | Inr s \<Rightarrow>
                               Inr (s\<lparr>Name := Secret_Name secret,
                                      Namespace := Secret_Namespace secret\<rparr>))))
              else
                (case ca of
                   Some caBytes \<Rightarrow>
                     (case AddCertAuth E nsSecName caBytes of
                        Inl err \<Rightarrow> Inl (ErrCreatingPemFile err)
                      | Inr s \<Rightarrow>
                          Inr (s\<lparr>Name := Secret_Name secret,
                                 Namespace := Secret_Namespace secret\<rparr>))
                 | None \<Rightarrow> Inl (ErrNoKeypairOrCA secretName))))"

subsection \<open>syncSecret\<close>

text \<open>
  The function returns the store it leaves and the effects it had. An error of
  \<open>getPemCertificate\<close> is logged and the function returns; a stored record that is
  \<open>Equal\<close> to the derived one ends the call too.
\<close>

definition syncSecret :: "env \<Rightarrow> string \<Rightarrow> store \<Rightarrow> store \<times> effect list" where
  "syncSecret E key st =
     (case getPemCertificate E key of
        Inl err \<Rightarrow> (st, [SyncStarted key])
      | Inr cert \<Rightarrow>
          (case Get st key of
             Some s \<Rightarrow>
               if Equal s cert then (st, [SyncStarted key])
               else (Update key cert st,
                     [SyncStarted key, TrackerUpdate key cert, Enqueue])
           | None \<Rightarrow>
               (Add key cert st, [SyncStarted key, TrackerAdd key cert, Enqueue])))"

subsection \<open>checkSSLChainIssues\<close>

text \<open>
  \<open>mergo.MergeWithOverwrite(dst, src)\<close> is a function of an outside library. As the
  library documents it, every field of \<open>src\<close> that is not the empty value of its type
  overwrites the field of \<open>dst\<close>, and the other fields of \<open>dst\<close> stay; it returns an
  error only for arguments that are nil or of different types, which two \<open>*SSLCert\<close>
  never are. \<open>empty_SSLCert\<close> is \<open>&ingress.SSLCert{}\<close>.
\<close>

definition empty_SSLCert :: SSLCert where
  "empty_SSLCert =
     \<lparr>Name = [], Namespace = [], Certificate = [], Key = [], CA = [], CN = [],
      PemFileName = [], FullChainPemFileName = []\<rparr>"

definition MergeWithOverwrite :: "SSLCert \<Rightarrow> SSLCert \<Rightarrow> string + SSLCert" where
  "MergeWithOverwrite dst src =
     Inr \<lparr>Name = (if Name src \<noteq> [] then Name src else Name dst),
          Namespace = (if Namespace src \<noteq> [] then Namespace src else Namespace dst),
          Certificate = (if Certificate src \<noteq> [] then Certificate src else Certificate dst),
          Key = (if Key src \<noteq> [] then Key src else Key dst),
          CA = (if CA src \<noteq> [] then CA src else CA dst),
          CN = (if CN src \<noteq> [] then CN src else CN dst),
          PemFileName = (if PemFileName src \<noteq> [] then PemFileName src else PemFileName dst),
          FullChainPemFileName =
            (if FullChainPemFileName src \<noteq> [] then FullChainPemFileName src
             else FullChainPemFileName dst)\<rparr>"

text \<open>\<open>fmt.Sprintf("%v/%v-%v-full-chain.pem", dir, namespace, name)\<close>.\<close>

definition fullChainPath :: "string \<Rightarrow> string \<Rightarrow> string \<Rightarrow> string" where
  "fullChainPath dir namespace name =
     dir @ ''/'' @ namespace @ ''-'' @ name @ ''-full-chain.pem''"

text \<open>
  The body of the loop for one key, once the record stored under it has been read.
  Each \<open>continue\<close> of the source is a branch that leaves the store as it is.
\<close>

definition chain_step :: "env \<Rightarrow> string \<Rightarrow> SSLCert \<Rightarrow> store \<Rightarrow> store \<times> effect list" where
  "chain_step E secretName secret st =
     (if FullChainPemFileName secret \<noteq> [] then (st, [])
      else
        (case FullChainCert E (PemFileName secret) of
           Inl err \<Rightarrow> (st, [ChainResolution secretName (PemFileName secret)])
         | Inr data \<Rightarrow>
             (let fullChainPemFileName =
                    fullChainPath (DefaultSSLDirectory E) (Namespace secret) (Name secret)
              in if \<not> WriteFile E fullChainPemFileName data then
                   (st, [ChainResolution secretName (PemFileName secret),
                         FileWrite fullChainPemFileName data False])
                 else
                   (case MergeWithOverwrite empty_SSLCert secret of
                      Inl err \<Rightarrow>
                        (st, [ChainResolution secretName (PemFileName secret),
                              FileWrite fullChainPemFileName data True])
                    | Inr dst0 \<Rightarrow>
                        (let dst = dst0\<lparr>FullChainPemFileName := fullChainPemFileName\<rparr>
                         in (Update secretName dst st,
                             [ChainResolution secretName (PemFileName secret),
                              FileWrite fullChainPemFileName data True,
                              TrackerUpdate secretName dst,
                              Enqueue]))))))"

text \<open>
  The loop over the keys. \<open>s.(*ingress.SSLCert)\<close> panics when \<open>Get\<close> finds nothing
  under the key; the panic is the result \<open>None\<close>.
\<close>

fun chain_loop :: "env \<Rightarrow> string list \<Rightarrow> store \<Rightarrow> (store \<times> effect list) option" where
  "chain_loop E [] st = Some (st, [])"
| "chain_loop E (secretName # rest) st =
     (case Get st secretName of
        None \<Rightarrow> None
      | Some secret \<Rightarrow>
          (let (st1, evs1) = chain_step E secretName secret st
           in case chain_loop E rest st1 of
                None \<Rightarrow> None
              | Some (st2, evs2) \<Rightarrow> Some (st2, evs1 @ evs2)))"

definition checkSSLChainIssues :: "env \<Rightarrow> store \<Rightarrow> (store \<times> effect list) option" where
  "checkSSLChainIssues E st = chain_loop E (ListKeys st) st"

subsection \<open>checkMissingSecrets\<close>







section \<open>Request gate: the Lua access handlers\<close>

subsection \<open>Lua values and the libraries the handlers call\<close>

text \<open>
  The Lua values a decoded JSON document and the handlers' results consist of.
  \<open>LTable\<close> is a table with string keys (a JSON object), \<open>LArray\<close> a table with the keys
  1, 2, ... (a JSON array), \<open>LNull\<close> the light userdata \<open>cjson.null\<close> and \<open>LFunction\<close> a
  function of the standard library, by name. The handlers never compute with a number;
  the integer only tells numbers apart.
\<close>

datatype lua_value =
    LNil
  | LBoolean bool
  | LNumber int
  | LString string
  | LTable "(string \<times> lua_value) list"
  | LArray "lua_value list"
  | LNull
  | LFunction string

text \<open>
  The functions of Lua's \<open>string\<close> table. A string value is indexed through its
  metatable, whose \<open>__index\<close> is that table.
\<close>

definition string_library :: "string list" where
  "string_library =
     [''byte'', ''char'', ''dump'', ''find'', ''format'', ''gfind'', ''gmatch'', ''gsub'',
      ''len'', ''lower'', ''match'', ''rep'', ''reverse'', ''sub'', ''upper'']"

text \<open>
  \<open>v.name\<close>: the field of a table (nil when it has none), a library function or nil for a
  string, and the error "attempt to index" (\<open>None\<close>) for every other value.
\<close>

fun lua_index :: "lua_value \<Rightarrow> string \<Rightarrow> lua_value option" where
  "lua_index (LTable entries) name =
     Some (case map_of entries name of None \<Rightarrow> LNil | Some v \<Rightarrow> v)"
| "lua_index (LArray _) name = Some LNil"
| "lua_index (LString _) name =
     Some (if name \<in> set string_library then LFunction (''string.'' @ name) else LNil)"
| "lua_index _ name = None"

text \<open>
  \<open>ngx.log(level, ...)\<close> returns at once when the configured log level does not admit
  the message. Otherwise it formats its arguments: strings, numbers, booleans, nil and
  a null light userdata are written, a table is written through its \<open>__tostring\<close>
  metamethod and refused without one, and every other value is refused; a refused
  argument is a Lua error. A table that \<open>cjson.decode\<close> built has no metatable.
  \<open>log_raises v\<close> says that \<open>ngx.log\<close> refuses the decoded value \<open>v\<close>.
\<close>

fun log_raises :: "lua_value \<Rightarrow> bool" where
  "log_raises (LTable _) = True"
| "log_raises (LArray _) = True"
| "log_raises (LFunction _) = True"
| "log_raises _ = False"

text \<open>The character class \<open>%s\<close> of a Lua pattern: C's \<open>isspace\<close>.\<close>

definition lua_isspace :: "char \<Rightarrow> bool" where
  "lua_isspace c =
     (c \<in> set [CHR 0x09, CHR 0x0A, CHR 0x0B, CHR 0x0C, CHR 0x0D, CHR '' ''])"

text \<open>
  The pattern \<open>Bearer%s+(.+)\<close> matched at the start of a string, as Lua's matcher
  does it: the word, then the longest run of white space, then every character that is
  left as the capture. When nothing is left the matcher backtracks and gives the last
  white space character of a run of two or more to the capture.
\<close>

definition match_Bearer :: "string \<Rightarrow> string option" where
  "match_Bearer s =
     (if take 6 s = ''Bearer'' then
        (let spaces = takeWhile lua_isspace (drop 6 s);
             rest = dropWhile lua_isspace (drop 6 s)
         in if spaces = [] then None
            else if rest \<noteq> [] then Some rest
            else if 2 \<le> length spaces then Some [last spaces]
            else None)
      else None)"

text \<open>
  The third result of \<open>string.find(s, "Bearer%s+(.+)")\<close>: the capture of the first
  position of \<open>s\<close> at which the pattern matches, nil (\<open>None\<close>) when there is none.
\<close>

fun find_Bearer :: "string \<Rightarrow> string option" where
  "find_Bearer [] = None"
| "find_Bearer (c # cs) =
     (case match_Bearer (c # cs) of
        Some token \<Rightarrow> Some token
      | None \<Rightarrow> find_Bearer cs)"

subsection \<open>Requests, responses and the error pages\<close>

text \<open>
  The request as the handlers read and change it: the Authorization header (read as
  \<open>ngx.var.http_Authorization\<close> and \<open>ngx.req.get_headers()["Authorization"]\<close>, set by
  \<open>ngx.req.set_header\<close>), the cookie jar, the method and the request URI. A request
  carries at most one Authorization header, so the header is a string or nil.
\<close>

record request =
  http_Authorization :: "string option"
  cookies :: "string \<rightharpoonup> string"
  req_method :: string
  request_uri :: string

text \<open>The response \<open>ngx.exit\<close> sends: status, the headers set and the body said.\<close>

record response =
  status :: nat
  headers :: "(string \<times> string) list"
  body :: string

text \<open>An outbound call of \<open>httpc:request_uri\<close> and what it returns.\<close>

record http_request =
  url :: string
  http_method :: string
  http_body :: string
  http_headers :: "(string \<times> string) list"

record http_response =
  res_status :: nat
  res_body :: "string option"

text \<open>The three global variables the loading block assigns; \<open>None\<close> is nil.\<close>

record error_pages =
  BODY_401_ERROR_RESPONSE :: "string option"
  BODY_403_ERROR_RESPONSE :: "string option"
  BODY_404_ERROR_RESPONSE :: "string option"

text \<open>
  What the handlers call and depend on: the globals, the HTTP client (\<open>None\<close> when
  the request fails), \<open>cjson.decode\<close> (\<open>None\<close> when it raises) and \<open>cjson.encode\<close>, and
  whether the log level of the server admits messages of level \<open>ngx.NOTICE\<close>. The
  client, the JSON library and the log level are parameters.
\<close>

record gate =
  pages :: error_pages
  request_uri_call :: "http_request \<Rightarrow> http_response option"
  cjson_decode :: "string \<Rightarrow> lua_value option"
  cjson_encode :: "lua_value \<Rightarrow> string"
  log_notice :: bool

text \<open>
  How a handler ends: \<open>ngx.exit\<close> with a response, a return to the caller, or a Lua
  error that nothing catches.
\<close>

datatype outcome = Exit response | Return lua_value | LuaError

record run =
  outcome :: outcome
  req_after :: request
  http_calls :: "http_request list"

subsection \<open>The loading block\<close>

text \<open>
  The block at the top of the file, run once: \<open>errorpages_dir_path\<close> is the value of
  the environment variable, \<open>get_file_content\<close> the function of the module \<open>common\<close>
  (nil for a file it cannot read) and \<open>G\<close> the globals before the block. The third
  part assigns the content of \<open>404.html\<close> to \<open>BODY_403_ERROR_RESPONSE\<close> and then tests
  \<open>BODY_404_ERROR_RESPONSE\<close>, as the source does.
\<close>

definition load_error_pages ::
  "string option \<Rightarrow> (string \<Rightarrow> string option) \<Rightarrow> error_pages \<Rightarrow> error_pages" where
  "load_error_pages errorpages_dir_path get_file_content G =
     (case errorpages_dir_path of
        None \<Rightarrow> G
      | Some dir \<Rightarrow>
          (let G1 = G\<lparr>BODY_401_ERROR_RESPONSE := get_file_content (dir @ ''/401.html'')\<rparr>;
               G2 = (if BODY_401_ERROR_RESPONSE G1 = None \<or> BODY_401_ERROR_RESPONSE G1 = Some []
                     then G1\<lparr>BODY_401_ERROR_RESPONSE := Some []\<rparr> else G1);
               G3 = G2\<lparr>BODY_403_ERROR_RESPONSE := get_file_content (dir @ ''/403.html'')\<rparr>;
               G4 = (if BODY_403_ERROR_RESPONSE G3 = None \<or> BODY_403_ERROR_RESPONSE G3 = Some []
                     then G3\<lparr>BODY_403_ERROR_RESPONSE := Some []\<rparr> else G3);
               G5 = G4\<lparr>BODY_403_ERROR_RESPONSE := get_file_content (dir @ ''/404.html'')\<rparr>;
               G6 = (if BODY_404_ERROR_RESPONSE G5 = None \<or> BODY_404_ERROR_RESPONSE G5 = Some []
                     then G5\<lparr>BODY_404_ERROR_RESPONSE := Some []\<rparr> else G5)
           in G6))"

text \<open>The globals of a fresh Lua state: none of the three is assigned.\<close>

definition no_pages :: error_pages where
  "no_pages =
     \<lparr>BODY_401_ERROR_RESPONSE = None, BODY_403_ERROR_RESPONSE = None,
      BODY_404_ERROR_RESPONSE = None\<rparr>"

subsection \<open>The exits\<close>

text \<open>\<open>ngx.say\<close> writes its argument and a newline; nil is written as \<open>nil\<close>.\<close>

definition ngx_say :: "string option \<Rightarrow> string" where
  "ngx_say v = (case v of None \<Rightarrow> ''nil'' | Some s \<Rightarrow> s) @ [CHR 0x0A]"

definition exit_401 :: "error_pages \<Rightarrow> response" where
  "exit_401 G =
     \<lparr>status = 401,
      headers = [(''Content-Type'', ''text/html; charset=UTF-8''),
                 (''WWW-Authenticate'', ''oauthjwt'')],
      body = ngx_say (BODY_401_ERROR_RESPONSE G)\<rparr>"

definition exit_403 :: "error_pages \<Rightarrow> response" where
  "exit_403 G =
     \<lparr>status = 403,
      headers = [(''Content-Type'', ''text/html; charset=UTF-8'')],
      body = ngx_say (BODY_403_ERROR_RESPONSE G)\<rparr>"

definition exit_404 :: "error_pages \<Rightarrow> response" where
  "exit_404 G =
     \<lparr>status = 404,
      headers = [(''Content-Type'', ''text/html; charset=UTF-8'')],
      body = ngx_say (BODY_404_ERROR_RESPONSE G)\<rparr>"

definition pdp_exit_403 :: response where
  "pdp_exit_403 =
     \<lparr>status = 403,
      headers = [(''Content-Type'', ''text/html; charset=UTF-8'')],
      body = ngx_say (Some ''Error 403 : Access Forbidden'')\<rparr>"

subsection \<open>validate_id_token_or_exit\<close>

definition validate_id_token_or_exit :: "gate \<Rightarrow> request \<Rightarrow> run" where
  "validate_id_token_or_exit E r =
     (let auth_header = http_Authorization r;
          (token, r1) =
            (case auth_header of
               Some h \<Rightarrow> (find_Bearer h, r)
             | None \<Rightarrow>
                 (case cookies r ''cfc-acs-info-cookie'' of
                    None \<Rightarrow> (None, r)
                  | Some t \<Rightarrow> (Some t, r\<lparr>http_Authorization := Some (''Bearer '' @ t)\<rparr>)))
      in case token of
           None \<Rightarrow> \<lparr>outcome = Exit (exit_401 (pages E)), req_after = r1, http_calls = []\<rparr>
         | Some _ \<Rightarrow> \<lparr>outcome = Return LNil, req_after = r1, http_calls = []\<rparr>)"

subsection \<open>validate_access_token_or_exit\<close>

definition userinfo_request :: "string \<Rightarrow> http_request" where
  "userinfo_request token =
     \<lparr>url = ''http://platform-identity-provider.kube-system:4300/v1/auth/userInfo'',
      http_method = ''POST'',
      http_body = ''access_token='' @ token,
      http_headers = [(''Content-Type'', ''application/x-www-form-urlencoded'')]\<rparr>"

text \<open>
  The second half of the handler, from the call of the identity provider on: \<open>r\<close> is
  the request as the first half left it and \<open>token\<close> the token it found. The test
  \<open>res.body == "" or res.body == nil\<close> is the case distinction on the body. Of the
  calls of \<open>ngx.log\<close> only \<open>ngx.log(ngx.NOTICE, "UID:", data)\<close> can raise: the others
  are given strings, numbers and nil.
\<close>

definition userinfo_exchange :: "gate \<Rightarrow> request \<Rightarrow> string \<Rightarrow> run" where
  "userinfo_exchange E r token =
     (let rq = userinfo_request token
      in case request_uri_call E rq of
           None \<Rightarrow> \<lparr>outcome = Exit (exit_401 (pages E)), req_after = r, http_calls = [rq]\<rparr>
         | Some res \<Rightarrow>
             (case res_body res of
                None \<Rightarrow>
                  \<lparr>outcome = Exit (exit_401 (pages E)), req_after = r, http_calls = [rq]\<rparr>
              | Some x \<Rightarrow>
                  if x = [] then
                    \<lparr>outcome = Exit (exit_401 (pages E)), req_after = r, http_calls = [rq]\<rparr>
                  else
                    (case cjson_decode E x of
                       None \<Rightarrow> \<lparr>outcome = LuaError, req_after = r, http_calls = [rq]\<rparr>
                     | Some v \<Rightarrow>
                         (case lua_index v ''sub'' of
                            None \<Rightarrow> \<lparr>outcome = LuaError, req_after = r, http_calls = [rq]\<rparr>
                          | Some data \<Rightarrow>
                              if log_notice E \<and> log_raises data then
                                \<lparr>outcome = LuaError, req_after = r, http_calls = [rq]\<rparr>
                              else
                                \<lparr>outcome = Return data, req_after = r,
                                 http_calls = [rq]\<rparr>))))"

definition validate_access_token_or_exit :: "gate \<Rightarrow> request \<Rightarrow> run" where
  "validate_access_token_or_exit E r =
     (let auth_header = http_Authorization r;
          (token, r1) =
            (case auth_header of
               Some h \<Rightarrow> (find_Bearer h, r)
             | None \<Rightarrow>
                 (case cookies r ''cfc-acs-auth-cookie'' of
                    None \<Rightarrow> (None, r)
                  | Some t \<Rightarrow> (Some t, r\<lparr>http_Authorization := Some (''Bearer '' @ t)\<rparr>)))
      in case token of
           None \<Rightarrow> \<lparr>outcome = Exit (exit_401 (pages E)), req_after = r1, http_calls = []\<rparr>
         | Some tok \<Rightarrow> userinfo_exchange E r1 tok)"

subsection \<open>validate_policy_or_exit\<close>

text \<open>The table \<open>data\<close> that the handler encodes as the body of its query.\<close>

definition authz_query :: "string \<Rightarrow> lua_value" where
  "authz_query uri =
     LTable [(''action'', LString uri),
             (''subject'', LTable [(''id'', LString []), (''type'', LString [])]),
             (''resource'',
                LTable [(''crn'', LString []),
                        (''attributes'',
                           LTable [(''serviceName'', LString []),
                                   (''accountId'', LString [])])])]"

definition authz_request :: "gate \<Rightarrow> request \<Rightarrow> string \<Rightarrow> http_request" where
  "authz_request E r auth_token =
     \<lparr>url = ''http://iam-pdp.kube-system:7998/v1/authz'',
      http_method = ''POST'',
      http_body = cjson_encode E (authz_query (req_method r @ '' '' @ request_uri r)),
      http_headers = [(''Content-Type'', ''application/json''),
                      (''Accept'', ''application/json''),
                      (''Authorization'', auth_token)]\<rparr>"

text \<open>\<open>return pdp_exit_403()\<close>, after the outbound calls made so far.\<close>

definition denied :: "request \<Rightarrow> http_request list \<Rightarrow> run" where
  "denied r calls = \<lparr>outcome = Exit pdp_exit_403, req_after = r, http_calls = calls\<rparr>"

text \<open>
  The second half of the handler, from the composition of \<open>uri\<close> on: \<open>auth_token\<close> is
  the credential the first half settled on. Here too only
  \<open>ngx.log(ngx.NOTICE, "UID:", data)\<close>, which comes before the test of \<open>data\<close>, can
  raise.
\<close>

definition authz_decision :: "gate \<Rightarrow> request \<Rightarrow> string \<Rightarrow> run" where
  "authz_decision E r auth_token =
     (let rq = authz_request E r auth_token
      in case request_uri_call E rq of
           None \<Rightarrow> denied r [rq]
         | Some res \<Rightarrow>
             (case res_body res of
                None \<Rightarrow> denied r [rq]
              | Some x \<Rightarrow>
                  if x = [] then denied r [rq]
                  else
                    (case cjson_decode E x of
                       None \<Rightarrow> \<lparr>outcome = LuaError, req_after = r, http_calls = [rq]\<rparr>
                     | Some v \<Rightarrow>
                         (case lua_index v ''decision'' of
                            None \<Rightarrow> \<lparr>outcome = LuaError, req_after = r, http_calls = [rq]\<rparr>
                          | Some data \<Rightarrow>
                              if log_notice E \<and> log_raises data then
                                \<lparr>outcome = LuaError, req_after = r, http_calls = [rq]\<rparr>
                              else if data \<noteq> LString ''Permit'' then denied r [rq]
                              else \<lparr>outcome = Return data, req_after = r,
                                    http_calls = [rq]\<rparr>))))"

text \<open>
  The first half: the header, the cookie, the denial when both are missing, and the
  credential taken from the cookie when there is no header. The second test of
  \<open>auth_token == nil\<close> is kept as the source has it.
\<close>

definition validate_policy_or_exit :: "gate \<Rightarrow> request \<Rightarrow> run" where
  "validate_policy_or_exit E r =
     (let auth_token = http_Authorization r;
          token = cookies r ''cfc-access-token-cookie''
      in if auth_token = None \<and> token = None then denied r []
         else
           (let auth_token1 =
                  (if auth_token = None then map_option (\<lambda>t. ''bearer '' @ t) token
                   else auth_token)
            in case auth_token1 of
                 None \<Rightarrow> denied r []
               | Some auth \<Rightarrow> authz_decision E r auth))"

section \<open>What the spec says a sweep leaves, and sample inputs\<close>

subsection \<open>Reading aids for the statements about the certificate tracker\<close>

text \<open>
  The last two statements of \<open>getPemCertificate\<close>, applied to what a builder of
  \<open>pkg/net/ssl\<close> returned: an error of the builder is wrapped, a record gets the name and
  the namespace of the secret.
\<close>

definition renamed :: "Secret \<Rightarrow> string + SSLCert \<Rightarrow> error + SSLCert" where
  "renamed secret built =
     (case built of
        Inl err \<Rightarrow> Inl (ErrCreatingPemFile err)
      | Inr s \<Rightarrow> Inr (s\<lparr>Name := Secret_Name secret, Namespace := Secret_Namespace secret\<rparr>))"

text \<open>
  The record the spec says the Chain Completion Job leaves in place of a record: the
  record itself when its chain path is set, when the chain cannot be resolved or when
  the file cannot be written, and otherwise the record with the chain path set to
  \<open><dir>/<namespace>-<name>-full-chain.pem\<close> and nothing else changed. The theorems
  compare \<open>checkSSLChainIssues\<close> with it.
\<close>

definition completed :: "env \<Rightarrow> SSLCert \<Rightarrow> SSLCert" where
  "completed E s =
     (if FullChainPemFileName s \<noteq> [] then s
      else
        (case FullChainCert E (PemFileName s) of
           Inl err \<Rightarrow> s
         | Inr data \<Rightarrow>
             if WriteFile E (fullChainPath (DefaultSSLDirectory E) (Namespace s) (Name s)) data
             then s\<lparr>FullChainPemFileName :=
                      fullChainPath (DefaultSSLDirectory E) (Namespace s) (Name s)\<rparr>
             else s))"

subsection \<open>A sample cluster\<close>

text \<open>
  Modelled from the spec: the builders of \<open>pkg/net/ssl\<close> are not part of the two source
  files. The sample builders make what the spec describes: a TLS record holds the
  certificate and the key, with the CA bytes attached when there are any; an auth-only
  record holds CA material only; the base PEM path is derived from the normalised name
  and the chain path starts empty. The theorems hold for every builder; the sample ones
  serve the closed instances.
\<close>

definition sample_AddOrUpdateCertAndKey ::
  "string \<Rightarrow> bytes \<Rightarrow> bytes \<Rightarrow> bytes option \<Rightarrow> string + SSLCert" where
  "sample_AddOrUpdateCertAndKey name cert key ca =
     (if cert = [] \<or> key = [] then Inl ''no certificate or key to write''
      else Inr \<lparr>Name = [], Namespace = [], Certificate = cert, Key = key,
                CA = (case ca of None \<Rightarrow> [] | Some caBytes \<Rightarrow> caBytes), CN = [],
                PemFileName = ''/ingress-controller/ssl/'' @ name @ ''.pem'',
                FullChainPemFileName = []\<rparr>)"

definition sample_AddCertAuth :: "string \<Rightarrow> bytes \<Rightarrow> string + SSLCert" where
  "sample_AddCertAuth name ca =
     (if ca = [] then Inl ''no CA certificate to write''
      else Inr \<lparr>Name = [], Namespace = [], Certificate = [], Key = [], CA = ca, CN = [],
                PemFileName = ''/ingress-controller/ssl/ca-'' @ name @ ''.pem'',
                FullChainPemFileName = []\<rparr>)"

text \<open>
  Five secrets: a key pair with a CA, a certificate with a CA and no key, a key alone,
  a CA alone, and a pair whose certificate is bound to a nil slice.
\<close>

definition web_tls :: Secret where
  "web_tls =
     \<lparr>Secret_Name = ''web-tls'', Secret_Namespace = ''ns'',
      Data = [''tls.crt'' \<mapsto> Some ''CERT'', ''tls.key'' \<mapsto> Some ''KEY'',
              ''ca.crt'' \<mapsto> Some ''CA'']\<rparr>"

definition half_pair :: Secret where
  "half_pair =
     \<lparr>Secret_Name = ''half'', Secret_Namespace = ''ns'',
      Data = [''tls.crt'' \<mapsto> Some ''CERT'', ''ca.crt'' \<mapsto> Some ''CA'']\<rparr>"

definition lone_key :: Secret where
  "lone_key =
     \<lparr>Secret_Name = ''lone'', Secret_Namespace = ''ns'',
      Data = [''tls.key'' \<mapsto> Some ''KEY'']\<rparr>"

definition ca_only :: Secret where
  "ca_only =
     \<lparr>Secret_Name = ''ca'', Secret_Namespace = ''ns'',
      Data = [''ca.crt'' \<mapsto> Some ''CA'']\<rparr>"

definition nil_crt :: Secret where
  "nil_crt =
     \<lparr>Secret_Name = ''nil-crt'', Secret_Namespace = ''ns'',
      Data = [''tls.crt'' \<mapsto> None, ''tls.key'' \<mapsto> Some ''KEY'']\<rparr>"

definition sample_secrets :: "string \<rightharpoonup> Secret" where
  "sample_secrets =
     [''ns/web-tls'' \<mapsto> web_tls, ''ns/half'' \<mapsto> half_pair, ''ns/lone'' \<mapsto> lone_key,
      ''ns/ca'' \<mapsto> ca_only, ''ns/nil-crt'' \<mapsto> nil_crt]"

text \<open>
  One ingress: two TLS references, the second without a secret name, and the client
  authentication annotation.
\<close>

definition web_ingress :: Ingress where
  "web_ingress =
     \<lparr>Ingress_Namespace = ''ns'',
      TLS = [\<lparr>SecretName = ''web-tls''\<rparr>, \<lparr>SecretName = []\<rparr>],
      Annotations = [''ingress.kubernetes.io/auth-tls-secret'' \<mapsto> ''ns/ca'']\<rparr>"

text \<open>
  The sample surroundings: chain resolution fails for a record without a PEM file, and
  the disk refuses one path.
\<close>

definition sample_env :: env where
  "sample_env =
     \<lparr>listers_Secret = sample_secrets,
      listers_Ingress = [web_ingress],
      AddOrUpdateCertAndKey = sample_AddOrUpdateCertAndKey,
      AddCertAuth = sample_AddCertAuth,
      FullChainCert =
        (\<lambda>pem. if pem = [] then Inl ''no PEM file'' else Inr (''chain of '' @ pem)),
      WriteFile =
        (\<lambda>path data. path \<noteq> ''/ingress-controller/ssl/ns-readonly-full-chain.pem''),
      DefaultSSLDirectory = ''/ingress-controller/ssl'',
      IsValid = (\<lambda>ing. True),
      GetStringAnnotation =
        (\<lambda>name ing. case Annotations ing (''ingress.kubernetes.io/'' @ name) of
                       None \<Rightarrow> [] | Some v \<Rightarrow> v)\<rparr>"

text \<open>The records the sample builders derive, and records in other states.\<close>

definition web_tls_cert :: SSLCert where
  "web_tls_cert =
     \<lparr>Name = ''web-tls'', Namespace = ''ns'', Certificate = ''CERT'', Key = ''KEY'',
      CA = ''CA'', CN = [], PemFileName = ''/ingress-controller/ssl/ns-web-tls.pem'',
      FullChainPemFileName = []\<rparr>"

definition web_tls_done :: SSLCert where
  "web_tls_done =
     web_tls_cert\<lparr>FullChainPemFileName :=
       ''/ingress-controller/ssl/ns-web-tls-full-chain.pem''\<rparr>"

definition ca_cert :: "string \<Rightarrow> SSLCert" where
  "ca_cert name =
     \<lparr>Name = name, Namespace = ''ns'', Certificate = [], Key = [], CA = ''CA'', CN = [],
      PemFileName = ''/ingress-controller/ssl/ca-ns-'' @ name @ ''.pem'',
      FullChainPemFileName = []\<rparr>"

definition no_pem_cert :: SSLCert where
  "no_pem_cert = web_tls_cert\<lparr>Name := ''no-pem'', PemFileName := []\<rparr>"

definition readonly_cert :: SSLCert where
  "readonly_cert = web_tls_cert\<lparr>Name := ''readonly''\<rparr>"

subsection \<open>Reading aids for the statements about the request gate\<close>

text \<open>
  The credential \<open>validate_policy_or_exit\<close> forwards: the Authorization header when
  there is one, otherwise \<open>bearer\<close> and the value of the policy cookie, and none when
  both are missing.
\<close>

definition policy_credential :: "request \<Rightarrow> string option" where
  "policy_credential r =
     (case http_Authorization r of
        Some auth \<Rightarrow> Some auth
      | None \<Rightarrow> map_option (\<lambda>t. ''bearer '' @ t) (cookies r ''cfc-access-token-cookie''))"

text \<open>
  The policy decision point answered the query \<open>rq\<close> with a body that is not empty,
  that \<open>cjson.decode\<close> accepts and whose \<open>decision\<close> is the string \<open>Permit\<close>.
\<close>

definition permitted :: "gate \<Rightarrow> http_request \<Rightarrow> bool" where
  "permitted E rq =
     (case request_uri_call E rq of
        None \<Rightarrow> False
      | Some res \<Rightarrow>
          (case res_body res of
             None \<Rightarrow> False
           | Some x \<Rightarrow>
               x \<noteq> [] \<and>
               (case cjson_decode E x of
                  None \<Rightarrow> False
                | Some v \<Rightarrow> lua_index v ''decision'' = Some (LString ''Permit''))))"

subsection \<open>Sample requests and services\<close>

text \<open>
  A decoder for the closed instances: it knows six documents and raises on every
  other text, as \<open>cjson.decode\<close> raises on a text that is not JSON.
\<close>

definition sample_decode :: "string \<Rightarrow> lua_value option" where
  \<open>sample_decode s =
     (if s = ''{"decision":"Permit"}'' then Some (LTable [(''decision'', LString ''Permit'')])
      else if s = ''{"decision":"Deny"}'' then Some (LTable [(''decision'', LString ''Deny'')])
      else if s = ''{"decision":{}}'' then Some (LTable [(''decision'', LTable [])])
      else if s = ''{"sub":"alice"}'' then Some (LTable [(''sub'', LString ''alice'')])
      else if s = ''{"sub":{"id":1}}'' then
        Some (LTable [(''sub'', LTable [(''id'', LNumber 1)])])
      else if s = ''{}'' then Some (LTable [])
      else None)\<close>

text \<open>
  A gate whose outbound calls all get the same reply, with no error page loaded and a
  log level that admits notices.
\<close>

definition sample_gate :: "http_response option \<Rightarrow> gate" where
  "sample_gate reply =
     \<lparr>pages = no_pages,
      request_uri_call = (\<lambda>rq. reply),
      cjson_decode = sample_decode,
      cjson_encode = (\<lambda>v. ''{}''),
      log_notice = True\<rparr>"

definition sample_reply :: "string \<Rightarrow> http_response option" where
  "sample_reply text = Some \<lparr>res_status = 200, res_body = Some text\<rparr>"

definition sample_request :: "string option \<Rightarrow> (string \<rightharpoonup> string) \<Rightarrow> request" where
  "sample_request auth jar =
     \<lparr>http_Authorization = auth, cookies = jar, req_method = ''GET'',
      request_uri = ''/console''\<rparr>"

text \<open>The three pages of a sample error page directory.\<close>

definition sample_files :: "string \<rightharpoonup> string" where
  "sample_files =
     [''/pages/401.html'' \<mapsto> ''401 page'', ''/pages/403.html'' \<mapsto> ''403 page'',
      ''/pages/404.html'' \<mapsto> ''404 page'']"

text \<open>
  The token the first half of a validation handler finds, for the cookie name the
  handler uses: the capture of the pattern in the Authorization header when the header
  is present, the value of the cookie otherwise. It is the Token Extractor of the spec.
\<close>

definition extract_token :: "string \<Rightarrow> request \<Rightarrow> string option" where
  "extract_token cookie_name r =
     (case http_Authorization r of
        Some h \<Rightarrow> find_Bearer h
      | None \<Rightarrow> cookies r cookie_name)"

text \<open>A request without a header and one with a header that is no bearer credential, both carrying the two session cookies.\<close>

definition session_jar :: "string \<rightharpoonup> string" where
  "session_jar =
     [''cfc-acs-info-cookie'' \<mapsto> ''id-token'', ''cfc-acs-auth-cookie'' \<mapsto> ''access-token'']"

section \<open>Properties of the certificate tracker\<close>

subsection \<open>The store and the sample cluster\<close>

lemma Equal_refl: "Equal s s"
  by (simp add: Equal_def)

lemma Get_Add: "Get (Add key cert st) key = Some cert"
  by (simp add: Get_def Add_def update_conv')

lemma Get_Update: "Get (Update key cert st) key = Some cert"
  by (simp add: Get_def Update_def update_conv')



lemma signals_Nil: "signals [] = 0"
  by (simp add: signals_def)

lemma mutations_Nil: "mutations [] = 0"
  by (simp add: mutations_def)

lemma signals_append: "signals (xs @ ys) = signals xs + signals ys"
  by (simp add: signals_def)

lemma mutations_append: "mutations (xs @ ys) = mutations xs + mutations ys"
  by (simp add: mutations_def)

lemmas sample_defs = sample_env_def sample_secrets_def web_tls_def half_pair_def lone_key_def
  ca_only_def nil_crt_def web_ingress_def sample_AddOrUpdateCertAndKey_def
  sample_AddCertAuth_def web_tls_cert_def web_tls_done_def ca_cert_def no_pem_cert_def
  readonly_cert_def

lemmas tracker_defs = getPemCertificate_def comma_ok_def replace_slashes_def renamed_def
  Get_def Add_def Update_def ListKeys_def Equal_def

lemma sample_web_tls: "getPemCertificate sample_env ''ns/web-tls'' = Inr web_tls_cert"
  by (simp add: sample_defs tracker_defs)

lemma sample_half_pair: "getPemCertificate sample_env ''ns/half'' = Inr (ca_cert ''half'')"
  by (simp add: sample_defs tracker_defs)

subsection \<open>syncSecret\<close>

lemma syncSecret_error:
  "getPemCertificate E key = Inl err \<Longrightarrow> syncSecret E key st = (st, [SyncStarted key])"
  by (simp add: syncSecret_def)

lemma syncSecret_again:
  "syncSecret E key (fst (syncSecret E key st)) = (fst (syncSecret E key st), [SyncStarted key])"
  by (auto simp: syncSecret_def Get_Add Get_Update Equal_refl split: sum.splits option.splits)

lemma syncSecret_effects_le:
  "mutations (snd (syncSecret E key st)) \<le> 1 \<and> signals (snd (syncSecret E key st)) \<le> 1"
  by (auto simp: syncSecret_def mutations_def signals_def split: sum.splits option.splits)



text \<open>
  Claim C2. When the record derived for a key is content-equal to the record stored
  under it, \<open>syncSecret\<close> leaves the store as it is and has no effect but its first log
  line: no call of \<open>Add\<close> or \<open>Update\<close>, no signal. Two calls in a row for the same key,
  with the secrets unchanged in between, together mutate the store at most once and
  enqueue at most one signal, and the second call changes nothing.
\<close>

theorem syncSecret_idempotent:
  "(getPemCertificate E key = Inr cert \<and> Get st key = Some cur \<and> Equal cur cert \<longrightarrow>
      syncSecret E key st = (st, [SyncStarted key]))
   \<and> mutations [SyncStarted key] = 0 \<and> signals [SyncStarted key] = 0
   \<and> (let (st1, evs1) = syncSecret E key st;
           (st2, evs2) = syncSecret E key st1
       in st2 = st1 \<and> evs2 = [SyncStarted key]
          \<and> mutations (evs1 @ evs2) \<le> 1 \<and> signals (evs1 @ evs2) \<le> 1)"
proof -
  have a: "getPemCertificate E key = Inr cert \<and> Get st key = Some cur \<and> Equal cur cert \<longrightarrow>
      syncSecret E key st = (st, [SyncStarted key])"
    by (simp add: syncSecret_def)
  have b: "mutations [SyncStarted key] = 0 \<and> signals [SyncStarted key] = 0"
    by (simp add: mutations_def signals_def)
  obtain st1 evs1 where r1: "syncSecret E key st = (st1, evs1)"
    by (cases "syncSecret E key st")
  have r2: "syncSecret E key st1 = (st1, [SyncStarted key])"
    using syncSecret_again [of E key st] r1 by simp
  have le: "mutations evs1 \<le> 1 \<and> signals evs1 \<le> 1"
    using syncSecret_effects_le [of E key st] r1 by simp
  have c: "mutations (evs1 @ [SyncStarted key]) \<le> 1 \<and> signals (evs1 @ [SyncStarted key]) \<le> 1"
    using le by (simp add: mutations_def signals_def)
  show ?thesis using a b c r1 r2 by simp
qed

text \<open>
  An instance of C2: the store holds the record of \<open>ns/web-tls\<close> with its chain path
  set; the record derived from the secret has the same certificate bytes, so the call
  changes nothing.
\<close>

theorem syncSecret_idempotent_witness:
  "getPemCertificate sample_env ''ns/web-tls'' = Inr web_tls_cert
   \<and> Get [(''ns/web-tls'', web_tls_done)] ''ns/web-tls'' = Some web_tls_done
   \<and> Equal web_tls_done web_tls_cert
   \<and> syncSecret sample_env ''ns/web-tls'' [(''ns/web-tls'', web_tls_done)] =
       ([(''ns/web-tls'', web_tls_done)], [SyncStarted ''ns/web-tls''])"
proof -
  have h1: "getPemCertificate sample_env ''ns/web-tls'' = Inr web_tls_cert"
    by (rule sample_web_tls)
  have h2: "Get [(''ns/web-tls'', web_tls_done)] ''ns/web-tls'' = Some web_tls_done"
    by (simp add: Get_def)
  have h3: "Equal web_tls_done web_tls_cert"
    by (simp add: Equal_def web_tls_done_def)
  show ?thesis
    using h1 h2 h3
      syncSecret_idempotent [of sample_env "''ns/web-tls''" web_tls_cert
        "[(''ns/web-tls'', web_tls_done)]" web_tls_done]
    by blast
qed

subsection \<open>getPemCertificate\<close>

lemma getPem_no_material:
  assumes "listers_Secret E secretName = Some secret"
    and "Data secret ''tls.crt'' = None \<or> Data secret ''tls.key'' = None"
    and "fst (comma_ok (Data secret) ''ca.crt'') = None"
  shows "getPemCertificate E secretName = Inl (ErrNoKeypairOrCA secretName)"
  using assms by (auto simp: getPemCertificate_def comma_ok_def split: option.splits)

lemma getPem_auth_only:
  assumes "listers_Secret E secretName = Some secret"
    and "Data secret ''tls.crt'' = None \<or> Data secret ''tls.key'' = None"
    and "fst (comma_ok (Data secret) ''ca.crt'') = Some caBytes"
  shows "getPemCertificate E secretName =
           renamed secret (AddCertAuth E (replace_slashes secretName) caBytes)"
  using assms
  by (auto simp: getPemCertificate_def comma_ok_def renamed_def split: option.splits sum.splits)

lemma getPem_tls:
  assumes "listers_Secret E secretName = Some secret"
    and "Data secret ''tls.crt'' = Some (Some certBytes)"
    and "Data secret ''tls.key'' = Some (Some keyBytes)"
  shows "getPemCertificate E secretName =
           renamed secret
             (AddOrUpdateCertAndKey E (replace_slashes secretName) certBytes keyBytes
                (fst (comma_ok (Data secret) ''ca.crt'')))"
  using assms
  by (auto simp: getPemCertificate_def comma_ok_def renamed_def split: option.splits sum.splits)

lemma getPem_nil_crt:
  assumes "listers_Secret E secretName = Some secret"
    and "Data secret ''tls.crt'' = Some None"
    and "Data secret ''tls.key'' \<noteq> None"
  shows "getPemCertificate E secretName = Inl (ErrNoTLSCrt secretName)"
  using assms by (auto simp: getPemCertificate_def comma_ok_def split: option.splits)

lemma getPem_nil_key:
  assumes "listers_Secret E secretName = Some secret"
    and "Data secret ''tls.crt'' = Some (Some certBytes)"
    and "Data secret ''tls.key'' = Some None"
  shows "getPemCertificate E secretName = Inl (ErrNoTLSKey secretName)"
  using assms by (auto simp: getPemCertificate_def comma_ok_def split: option.splits)

text \<open>
  Claim C3, as the code has it. Let the lister resolve the secret. When exactly one of
  \<open>tls.crt\<close> and \<open>tls.key\<close> is present, the CA decides: without CA bytes the derivation
  fails with the error "no keypair or CA cert could be found" and \<open>syncSecret\<close> leaves
  the store untouched; with CA bytes the derivation takes the CA-only path and returns
  what \<open>ssl.AddCertAuth\<close> builds from them, the auth-only record. With certificate, key
  and CA the result is what \<open>ssl.AddOrUpdateCertAndKey\<close> builds from the three, the CA
  passed along; with a CA alone it is the auth-only record; with neither a pair nor a CA
  the derivation fails and the store is untouched. A pair one of whose members is bound
  to a nil slice fails with the error naming that member, the store untouched. The
  identifier is passed to the builders with its slashes replaced by dashes.
\<close>

theorem getPemCertificate_classification:
  assumes "listers_Secret E secretName = Some secret"
  shows
    "((Data secret ''tls.crt'' = None) \<noteq> (Data secret ''tls.key'' = None)
        \<and> fst (comma_ok (Data secret) ''ca.crt'') = None \<longrightarrow>
        getPemCertificate E secretName = Inl (ErrNoKeypairOrCA secretName)
        \<and> syncSecret E secretName st = (st, [SyncStarted secretName]))
     \<and> ((Data secret ''tls.crt'' = None) \<noteq> (Data secret ''tls.key'' = None)
        \<and> fst (comma_ok (Data secret) ''ca.crt'') = Some caBytes \<longrightarrow>
        getPemCertificate E secretName =
          renamed secret (AddCertAuth E (replace_slashes secretName) caBytes))
     \<and> (Data secret ''tls.crt'' = Some (Some certBytes)
        \<and> Data secret ''tls.key'' = Some (Some keyBytes)
        \<and> Data secret ''ca.crt'' = Some (Some caBytes) \<longrightarrow>
        getPemCertificate E secretName =
          renamed secret
            (AddOrUpdateCertAndKey E (replace_slashes secretName) certBytes keyBytes
               (Some caBytes)))
     \<and> (Data secret ''tls.crt'' = None \<and> Data secret ''tls.key'' = None
        \<and> Data secret ''ca.crt'' = Some (Some caBytes) \<longrightarrow>
        getPemCertificate E secretName =
          renamed secret (AddCertAuth E (replace_slashes secretName) caBytes))
     \<and> ((Data secret ''tls.crt'' = None \<or> Data secret ''tls.key'' = None)
        \<and> fst (comma_ok (Data secret) ''ca.crt'') = None \<longrightarrow>
        getPemCertificate E secretName = Inl (ErrNoKeypairOrCA secretName)
        \<and> syncSecret E secretName st = (st, [SyncStarted secretName]))
     \<and> (Data secret ''tls.crt'' = Some None \<and> Data secret ''tls.key'' \<noteq> None \<longrightarrow>
        getPemCertificate E secretName = Inl (ErrNoTLSCrt secretName)
        \<and> syncSecret E secretName st = (st, [SyncStarted secretName]))
     \<and> (Data secret ''tls.crt'' = Some (Some certBytes)
        \<and> Data secret ''tls.key'' = Some None \<longrightarrow>
        getPemCertificate E secretName = Inl (ErrNoTLSKey secretName)
        \<and> syncSecret E secretName st = (st, [SyncStarted secretName]))"
proof -
  have none: "(Data secret ''tls.crt'' = None \<or> Data secret ''tls.key'' = None)
        \<and> fst (comma_ok (Data secret) ''ca.crt'') = None \<longrightarrow>
        getPemCertificate E secretName = Inl (ErrNoKeypairOrCA secretName)
        \<and> syncSecret E secretName st = (st, [SyncStarted secretName])"
    using getPem_no_material [OF assms] syncSecret_error by blast
  have auth: "(Data secret ''tls.crt'' = None \<or> Data secret ''tls.key'' = None)
        \<and> fst (comma_ok (Data secret) ''ca.crt'') = Some caBytes \<longrightarrow>
        getPemCertificate E secretName =
          renamed secret (AddCertAuth E (replace_slashes secretName) caBytes)"
    using getPem_auth_only [OF assms] by blast
  have ca: "Data secret ''ca.crt'' = Some (Some caBytes) \<Longrightarrow>
        fst (comma_ok (Data secret) ''ca.crt'') = Some caBytes"
    by (simp add: comma_ok_def)
  have tls: "Data secret ''tls.crt'' = Some (Some certBytes)
        \<and> Data secret ''tls.key'' = Some (Some keyBytes)
        \<and> Data secret ''ca.crt'' = Some (Some caBytes) \<longrightarrow>
        getPemCertificate E secretName =
          renamed secret
            (AddOrUpdateCertAndKey E (replace_slashes secretName) certBytes keyBytes
               (Some caBytes))"
    using getPem_tls [OF assms, of certBytes keyBytes] ca by auto
  have nilc: "Data secret ''tls.crt'' = Some None \<and> Data secret ''tls.key'' \<noteq> None \<longrightarrow>
        getPemCertificate E secretName = Inl (ErrNoTLSCrt secretName)
        \<and> syncSecret E secretName st = (st, [SyncStarted secretName])"
    using getPem_nil_crt [OF assms] syncSecret_error by blast
  have nilk: "Data secret ''tls.crt'' = Some (Some certBytes)
        \<and> Data secret ''tls.key'' = Some None \<longrightarrow>
        getPemCertificate E secretName = Inl (ErrNoTLSKey secretName)
        \<and> syncSecret E secretName st = (st, [SyncStarted secretName])"
    using getPem_nil_key [OF assms] syncSecret_error by blast
  show ?thesis using none auth tls ca nilc nilk by blast
qed

text \<open>
  Instances of C3 in the sample cluster: the lone key fails and leaves the empty store
  empty, the certificate with a CA and no key becomes an auth-only record, the full
  secret becomes the TLS record with the CA attached, and the pair with a nil
  certificate fails.
\<close>

theorem getPemCertificate_classification_witness:
  "listers_Secret sample_env ''ns/lone'' = Some lone_key
   \<and> (Data lone_key ''tls.crt'' = None) \<noteq> (Data lone_key ''tls.key'' = None)
   \<and> fst (comma_ok (Data lone_key) ''ca.crt'') = None
   \<and> getPemCertificate sample_env ''ns/lone'' = Inl (ErrNoKeypairOrCA ''ns/lone'')
   \<and> syncSecret sample_env ''ns/lone'' [] = ([], [SyncStarted ''ns/lone''])
   \<and> listers_Secret sample_env ''ns/half'' = Some half_pair
   \<and> (Data half_pair ''tls.crt'' = None) \<noteq> (Data half_pair ''tls.key'' = None)
   \<and> fst (comma_ok (Data half_pair) ''ca.crt'') = Some ''CA''
   \<and> getPemCertificate sample_env ''ns/half'' = Inr (ca_cert ''half'')
   \<and> listers_Secret sample_env ''ns/web-tls'' = Some web_tls
   \<and> Data web_tls ''tls.crt'' = Some (Some ''CERT'')
   \<and> Data web_tls ''tls.key'' = Some (Some ''KEY'')
   \<and> Data web_tls ''ca.crt'' = Some (Some ''CA'')
   \<and> getPemCertificate sample_env ''ns/web-tls'' = Inr web_tls_cert
   \<and> listers_Secret sample_env ''ns/nil-crt'' = Some nil_crt
   \<and> Data nil_crt ''tls.crt'' = Some None
   \<and> Data nil_crt ''tls.key'' \<noteq> None
   \<and> getPemCertificate sample_env ''ns/nil-crt'' = Inl (ErrNoTLSCrt ''ns/nil-crt'')"
proof -
  have l: "listers_Secret sample_env ''ns/lone'' = Some lone_key"
    by (simp add: sample_env_def sample_secrets_def)
  have l1: "(Data lone_key ''tls.crt'' = None) \<noteq> (Data lone_key ''tls.key'' = None)"
    by (simp add: lone_key_def)
  have l2: "fst (comma_ok (Data lone_key) ''ca.crt'') = None"
    by (simp add: lone_key_def comma_ok_def)
  have h: "listers_Secret sample_env ''ns/half'' = Some half_pair"
    by (simp add: sample_env_def sample_secrets_def)
  have h1: "(Data half_pair ''tls.crt'' = None) \<noteq> (Data half_pair ''tls.key'' = None)"
    by (simp add: half_pair_def)
  have h2: "fst (comma_ok (Data half_pair) ''ca.crt'') = Some ''CA''"
    by (simp add: half_pair_def comma_ok_def)
  have h3: "renamed half_pair (AddCertAuth sample_env (replace_slashes ''ns/half'') ''CA'') =
              Inr (ca_cert ''half'')"
    by (simp add: sample_defs tracker_defs)
  have w: "listers_Secret sample_env ''ns/web-tls'' = Some web_tls"
    by (simp add: sample_env_def sample_secrets_def)
  have w1: "Data web_tls ''tls.crt'' = Some (Some ''CERT'')
            \<and> Data web_tls ''tls.key'' = Some (Some ''KEY'')
            \<and> Data web_tls ''ca.crt'' = Some (Some ''CA'')"
    by (simp add: web_tls_def)
  have w2: "renamed web_tls
              (AddOrUpdateCertAndKey sample_env (replace_slashes ''ns/web-tls'') ''CERT'' ''KEY''
                 (Some ''CA'')) = Inr web_tls_cert"
    by (simp add: sample_defs tracker_defs)
  have n: "listers_Secret sample_env ''ns/nil-crt'' = Some nil_crt"
    by (simp add: sample_env_def sample_secrets_def)
  have n1: "Data nil_crt ''tls.crt'' = Some None \<and> Data nil_crt ''tls.key'' \<noteq> None"
    by (simp add: nil_crt_def)
  show ?thesis
    using l l1 l2 h h1 h2 h3 w w1 w2 n n1
      getPemCertificate_classification [OF l, where st = "[]"]
      getPemCertificate_classification [OF h, where caBytes = "''CA''"]
      getPemCertificate_classification
        [OF w, where caBytes = "''CA''" and certBytes = "''CERT''" and keyBytes = "''KEY''"]
      getPemCertificate_classification [OF n]
    by simp
qed

text \<open>
  The claim C3 as the spec words it fails: the secret \<open>ns/half\<close> has a certificate and
  no key, and because it carries CA bytes its derivation succeeds; \<open>syncSecret\<close> adds
  the auth-only record to the empty store and enqueues a signal.
\<close>

theorem getPemCertificate_one_sided_counterexample:
  "listers_Secret sample_env ''ns/half'' = Some half_pair
   \<and> Data half_pair ''tls.crt'' = Some (Some ''CERT'')
   \<and> Data half_pair ''tls.key'' = None
   \<and> getPemCertificate sample_env ''ns/half'' = Inr (ca_cert ''half'')
   \<and> syncSecret sample_env ''ns/half'' [] =
       ([(''ns/half'', ca_cert ''half'')],
        [SyncStarted ''ns/half'', TrackerAdd ''ns/half'' (ca_cert ''half''), Enqueue])"
proof -
  have a: "listers_Secret sample_env ''ns/half'' = Some half_pair"
    by (simp add: sample_env_def sample_secrets_def)
  have b: "Data half_pair ''tls.crt'' = Some (Some ''CERT'') \<and> Data half_pair ''tls.key'' = None"
    by (simp add: half_pair_def)
  have c: "syncSecret sample_env ''ns/half'' [] =
       ([(''ns/half'', ca_cert ''half'')],
        [SyncStarted ''ns/half'', TrackerAdd ''ns/half'' (ca_cert ''half''), Enqueue])"
    by (simp add: sample_half_pair syncSecret_def Get_def Add_def)
  show ?thesis using a b c sample_half_pair by simp
qed

subsection \<open>checkSSLChainIssues\<close>

lemma merge_into_empty: "MergeWithOverwrite empty_SSLCert s = Inr s"
  by (simp add: MergeWithOverwrite_def empty_SSLCert_def)

lemma path_update_neq:
  "FullChainPemFileName s = [] \<Longrightarrow> s\<lparr>FullChainPemFileName := fullChainPath d n m\<rparr> \<noteq> s"
proof
  assume e: "FullChainPemFileName s = []"
    and eq: "s\<lparr>FullChainPemFileName := fullChainPath d n m\<rparr> = s"
  have "FullChainPemFileName (s\<lparr>FullChainPemFileName := fullChainPath d n m\<rparr>) = []"
    using e by (simp only: eq)
  then show False by (simp add: fullChainPath_def)
qed

lemma chain_step_skip:
  "FullChainPemFileName secret \<noteq> [] \<Longrightarrow> chain_step E key secret st = (st, [])"
  by (simp add: chain_step_def)

lemma chain_step_store:
  "fst (chain_step E key secret st) =
     (if completed E secret = secret then st else Update key (completed E secret) st)"
  by (auto simp: chain_step_def completed_def merge_into_empty Let_def path_update_neq
      split: sum.splits)

lemma chain_step_effects_indep:
  "snd (chain_step E key secret st) = snd (chain_step E key secret st')"
  by (auto simp: chain_step_def merge_into_empty Let_def split: sum.splits)

lemma chain_step_signals:
  "signals (snd (chain_step E key secret st)) = (if completed E secret = secret then 0 else 1)"
  by (auto simp: chain_step_def completed_def merge_into_empty Let_def signals_def
      path_update_neq split: sum.splits)

lemma chain_step_mutations:
  "mutations (snd (chain_step E key secret st)) = (if completed E secret = secret then 0 else 1)"
  by (auto simp: chain_step_def completed_def merge_into_empty Let_def mutations_def
      path_update_neq split: sum.splits)

lemma update_middle:
  "k \<notin> fst ` set pre \<Longrightarrow> AList.update k v (pre @ (k, s) # suf) = pre @ (k, v) # suf"
  by (induction pre) auto

lemma map_of_middle:
  "k \<notin> fst ` set pre \<Longrightarrow> map_of (pre @ (k, s) # suf) k = Some s"
  by (induction pre) (auto simp del: map_of_append)

lemma chain_step_middle:
  assumes "k \<notin> fst ` set pre"
  shows "fst (chain_step E k s (pre @ (k, s) # suf)) = pre @ (k, completed E s) # suf"
  using assms by (simp add: chain_step_store Update_def update_middle)

text \<open>
  The loop, started on the keys of the entries that are left: the entries before them
  have been visited. It visits each entry once and leaves \<open>completed\<close> of it in its
  place; its effects are those of the steps, in the order of the keys.
\<close>

lemma chain_loop_sweep:
  "distinct (map fst (pre @ suf)) \<Longrightarrow>
   chain_loop E (map fst suf) (pre @ suf) =
     Some (pre @ map (\<lambda>(k, s). (k, completed E s)) suf,
           concat (map (\<lambda>(k, s). snd (chain_step E k s [])) suf))"
proof (induction suf arbitrary: pre)
  case Nil
  then show ?case by simp
next
  case (Cons a suf)
  obtain k s where a: "a = (k, s)" by (cases a)
  from Cons.prems a have notin: "k \<notin> fst ` set pre" by auto
  have get: "Get (pre @ (k, s) # suf) k = Some s"
    unfolding Get_def using notin by (rule map_of_middle)
  have st1: "fst (chain_step E k s (pre @ (k, s) # suf)) = (pre @ [(k, completed E s)]) @ suf"
    using notin by (simp add: chain_step_middle)
  have ev1: "snd (chain_step E k s (pre @ (k, s) # suf)) = snd (chain_step E k s [])"
    by (rule chain_step_effects_indep)
  have d: "distinct (map fst ((pre @ [(k, completed E s)]) @ suf))"
    using Cons.prems a by auto
  have ih: "chain_loop E (map fst suf) ((pre @ [(k, completed E s)]) @ suf) =
     Some ((pre @ [(k, completed E s)]) @ map (\<lambda>(k, s). (k, completed E s)) suf,
           concat (map (\<lambda>(k, s). snd (chain_step E k s [])) suf))"
    by (rule Cons.IH [OF d])
  obtain x y where xy: "chain_step E k s (pre @ (k, s) # suf) = (x, y)"
    by (cases "chain_step E k s (pre @ (k, s) # suf)")
  with st1 ev1 have x: "x = (pre @ [(k, completed E s)]) @ suf"
    and y: "y = snd (chain_step E k s [])"
    by auto
  show ?case
    using get ih by (simp add: a xy x y)
qed

lemma checkSSLChainIssues_sweep:
  "distinct (ListKeys st) \<Longrightarrow>
   checkSSLChainIssues E st =
     Some (map (\<lambda>(k, s). (k, completed E s)) st,
           concat (map (\<lambda>(k, s). snd (chain_step E k s [])) st))"
  using chain_loop_sweep [of "[]" st E] by (simp add: checkSSLChainIssues_def ListKeys_def)

lemma sweep_signals:
  "signals (concat (map (\<lambda>(k, s). snd (chain_step E k s [])) st)) =
     length (filter (\<lambda>(k, s). completed E s \<noteq> s) st)"
  by (induction st) (auto simp: signals_append chain_step_signals signals_Nil)

lemma sweep_mutations:
  "mutations (concat (map (\<lambda>(k, s). snd (chain_step E k s [])) st)) =
     length (filter (\<lambda>(k, s). completed E s \<noteq> s) st)"
  by (induction st) (auto simp: mutations_append chain_step_mutations mutations_Nil)

lemma sweep_effects_any_store:
  "concat (map (\<lambda>(k, s). snd (chain_step E k s [])) st) =
   concat (map (\<lambda>(k, s). snd (chain_step E k s st')) st)"
proof -
  have "(\<lambda>(k, s). snd (chain_step E k s [])) = (\<lambda>(k, s). snd (chain_step E k s st'))"
    by (auto simp: fun_eq_iff intro: chain_step_effects_indep)
  then show ?thesis by simp
qed

lemma completed_idem: "completed E (completed E s) = completed E s"
  by (auto simp: completed_def fullChainPath_def split: sum.splits)

lemma completed_keeps:
  "FullChainPemFileName s \<noteq> [] \<Longrightarrow> completed E s = s"
  by (simp add: completed_def)

lemma Get_map_completed:
  "Get (map (\<lambda>(k, s). (k, completed E s)) st) k = map_option (completed E) (Get st k)"
  by (induction st) (auto simp: Get_def)

lemma Get_map_completed_keeps:
  "Get st k = Some s \<Longrightarrow> FullChainPemFileName s \<noteq> [] \<Longrightarrow>
   Get (map (\<lambda>(k, s). (k, completed E s)) st) k = Some s"
  by (simp add: Get_map_completed completed_keeps)

lemma keys_map_completed: "ListKeys (map (\<lambda>(k, s). (k, completed E s)) st) = ListKeys st"
  by (induction st) (auto simp: ListKeys_def)

lemma chain_loop_all_complete:
  "set ks \<subseteq> fst ` set st \<Longrightarrow> \<forall>(k, s) \<in> set st. FullChainPemFileName s \<noteq> [] \<Longrightarrow>
   chain_loop E ks st = Some (st, [])"
proof (induction ks)
  case Nil
  then show ?case by simp
next
  case (Cons k ks)
  from Cons.prems(1) obtain s where g: "map_of st k = Some s"
    by (cases "map_of st k") (auto simp: map_of_eq_None_iff)
  then have "(k, s) \<in> set st" by (rule map_of_SomeD)
  with Cons.prems(2) have "FullChainPemFileName s \<noteq> []" by auto
  then have step: "chain_step E k s st = (st, [])" by (rule chain_step_skip)
  from Cons have ih: "chain_loop E ks st = Some (st, [])" by simp
  show ?case using g step ih by (simp add: Get_def)
qed

lemma two_sweeps_count:
  "length (filter (\<lambda>(k, s). completed E s \<noteq> s) st)
   + length (filter (\<lambda>(k, s). completed E s \<noteq> s) (map (\<lambda>(k, s). (k, completed E s)) st))
   \<le> length st"
proof -
  have "filter (\<lambda>(k, s). completed E s \<noteq> s) (map (\<lambda>(k, s). (k, completed E s)) st) = []"
    unfolding filter_empty_conv by (auto simp: completed_idem)
  then show ?thesis by (simp only: list.size add_0_right length_filter_le)
qed

lemmas chain_defs = checkSSLChainIssues_def chain_step_def fullChainPath_def
  MergeWithOverwrite_def empty_SSLCert_def completed_def mutations_def signals_def

text \<open>
  Claim C6. The body of the sweep skips a record whose chain path is set: the store
  stays as it is and the step has no effect at all (no chain resolution, no file
  write, no store update, no signal). A sweep over a store all of whose records have
  their chain path set changes nothing and has no effect. On a store with one entry per
  key the sweep never panics, its effects are those of the steps for the entries, one
  after the other, and every record whose chain path was set is still stored under its
  key afterwards; the same holds for a second sweep, and the two sweeps together update
  the store and signal at most once for each entry: a chain is completed at most once
  for an unchanged record.
\<close>

theorem checkSSLChainIssues_skips_completed:
  "(FullChainPemFileName secret \<noteq> [] \<longrightarrow> chain_step E key secret st = (st, []))
   \<and> ((\<forall>(k, s) \<in> set st. FullChainPemFileName s \<noteq> []) \<longrightarrow>
        checkSSLChainIssues E st = Some (st, []))
   \<and> (distinct (ListKeys st) \<longrightarrow>
        (\<exists>st1 evs1 st2 evs2.
           checkSSLChainIssues E st = Some (st1, evs1)
           \<and> evs1 = concat (map (\<lambda>(k, s). snd (chain_step E k s st)) st)
           \<and> (\<forall>k s. Get st k = Some s \<and> FullChainPemFileName s \<noteq> [] \<longrightarrow> Get st1 k = Some s)
           \<and> checkSSLChainIssues E st1 = Some (st2, evs2)
           \<and> (\<forall>k s. Get st1 k = Some s \<and> FullChainPemFileName s \<noteq> [] \<longrightarrow> Get st2 k = Some s)
           \<and> mutations evs1 + mutations evs2 \<le> length st
           \<and> signals evs1 + signals evs2 \<le> length st))"
proof -
  have a: "FullChainPemFileName secret \<noteq> [] \<longrightarrow> chain_step E key secret st = (st, [])"
    by (simp add: chain_step_skip)
  have b: "(\<forall>(k, s) \<in> set st. FullChainPemFileName s \<noteq> []) \<longrightarrow>
        checkSSLChainIssues E st = Some (st, [])"
    unfolding checkSSLChainIssues_def ListKeys_def
    using chain_loop_all_complete [of "map fst st" st E] by simp
  have c: "\<exists>st1 evs1 st2 evs2.
           checkSSLChainIssues E st = Some (st1, evs1)
           \<and> evs1 = concat (map (\<lambda>(k, s). snd (chain_step E k s st)) st)
           \<and> (\<forall>k s. Get st k = Some s \<and> FullChainPemFileName s \<noteq> [] \<longrightarrow> Get st1 k = Some s)
           \<and> checkSSLChainIssues E st1 = Some (st2, evs2)
           \<and> (\<forall>k s. Get st1 k = Some s \<and> FullChainPemFileName s \<noteq> [] \<longrightarrow> Get st2 k = Some s)
           \<and> mutations evs1 + mutations evs2 \<le> length st
           \<and> signals evs1 + signals evs2 \<le> length st"
    if d: "distinct (ListKeys st)"
  proof -
    let ?c = "\<lambda>(k, s). (k, completed E s)"
    let ?ev = "\<lambda>st. concat (map (\<lambda>(k, s). snd (chain_step E k s [])) st)"
    have s1: "checkSSLChainIssues E st = Some (map ?c st, ?ev st)"
      using d by (rule checkSSLChainIssues_sweep)
    have d1: "distinct (ListKeys (map ?c st))"
      using d by (simp add: keys_map_completed)
    have s2: "checkSSLChainIssues E (map ?c st) = Some (map ?c (map ?c st), ?ev (map ?c st))"
      using d1 by (rule checkSSLChainIssues_sweep)
    have e1: "?ev st = concat (map (\<lambda>(k, s). snd (chain_step E k s st)) st)"
      by (rule sweep_effects_any_store)
    have k1: "\<forall>k s. Get st k = Some s \<and> FullChainPemFileName s \<noteq> [] \<longrightarrow>
                Get (map ?c st) k = Some s"
      by (blast intro: Get_map_completed_keeps)
    have k2: "\<forall>k s. Get (map ?c st) k = Some s \<and> FullChainPemFileName s \<noteq> [] \<longrightarrow>
                Get (map ?c (map ?c st)) k = Some s"
      by (blast intro: Get_map_completed_keeps)
    have m: "mutations (?ev st) + mutations (?ev (map ?c st)) \<le> length st"
      using two_sweeps_count [of E st] by (simp only: sweep_mutations)
    have g: "signals (?ev st) + signals (?ev (map ?c st)) \<le> length st"
      using two_sweeps_count [of E st] by (simp only: sweep_signals)
    show ?thesis using s1 s2 e1 k1 k2 m g by blast
  qed
  show ?thesis using a b c by blast
qed

text \<open>
  An instance of C6: a store with the completed record of \<open>ns/web-tls\<close> and the
  incomplete auth-only record of \<open>ns/ca\<close>. The step skips the first; the first sweep
  completes the second and keeps the first; the second sweep has nothing left to do.
\<close>

theorem checkSSLChainIssues_skips_completed_witness:
  "FullChainPemFileName web_tls_done \<noteq> []
   \<and> chain_step sample_env ''ns/web-tls'' web_tls_done
        [(''ns/web-tls'', web_tls_done), (''ns/ca'', ca_cert ''ca'')] =
       ([(''ns/web-tls'', web_tls_done), (''ns/ca'', ca_cert ''ca'')], [])
   \<and> distinct (ListKeys [(''ns/web-tls'', web_tls_done), (''ns/ca'', ca_cert ''ca'')])
   \<and> (\<exists>st1 evs1 st2 evs2.
         checkSSLChainIssues sample_env
           [(''ns/web-tls'', web_tls_done), (''ns/ca'', ca_cert ''ca'')] = Some (st1, evs1)
         \<and> Get st1 ''ns/web-tls'' = Some web_tls_done
         \<and> checkSSLChainIssues sample_env st1 = Some (st2, evs2)
         \<and> Get st2 ''ns/web-tls'' = Some web_tls_done
         \<and> mutations evs1 + mutations evs2 \<le> 2)
   \<and> checkSSLChainIssues sample_env [(''ns/web-tls'', web_tls_done)] =
       Some ([(''ns/web-tls'', web_tls_done)], [])"
proof -
  let ?st = "[(''ns/web-tls'', web_tls_done), (''ns/ca'', ca_cert ''ca'')]"
  have h1: "FullChainPemFileName web_tls_done \<noteq> []"
    by (simp add: web_tls_done_def)
  have h2: "distinct (ListKeys ?st)"
    by (simp add: ListKeys_def)
  have h3: "Get ?st ''ns/web-tls'' = Some web_tls_done"
    by (simp add: Get_def)
  have h4: "\<forall>(k, s) \<in> set [(''ns/web-tls'', web_tls_done)]. FullChainPemFileName s \<noteq> []"
    using h1 by simp
  have len: "length ?st = 2" by simp
  from checkSSLChainIssues_skips_completed
         [of web_tls_done sample_env "''ns/web-tls''" ?st] h1 h2
  have step: "chain_step sample_env ''ns/web-tls'' web_tls_done ?st = (?st, [])"
    and sweep: "\<exists>st1 evs1 st2 evs2.
           checkSSLChainIssues sample_env ?st = Some (st1, evs1)
           \<and> evs1 = concat (map (\<lambda>(k, s). snd (chain_step sample_env k s ?st)) ?st)
           \<and> (\<forall>k s. Get ?st k = Some s \<and> FullChainPemFileName s \<noteq> [] \<longrightarrow> Get st1 k = Some s)
           \<and> checkSSLChainIssues sample_env st1 = Some (st2, evs2)
           \<and> (\<forall>k s. Get st1 k = Some s \<and> FullChainPemFileName s \<noteq> [] \<longrightarrow> Get st2 k = Some s)
           \<and> mutations evs1 + mutations evs2 \<le> length ?st
           \<and> signals evs1 + signals evs2 \<le> length ?st"
    by blast+
  from sweep obtain st1 evs1 st2 evs2 where
    s1: "checkSSLChainIssues sample_env ?st = Some (st1, evs1)"
    and k1: "\<forall>k s. Get ?st k = Some s \<and> FullChainPemFileName s \<noteq> [] \<longrightarrow> Get st1 k = Some s"
    and s2: "checkSSLChainIssues sample_env st1 = Some (st2, evs2)"
    and k2: "\<forall>k s. Get st1 k = Some s \<and> FullChainPemFileName s \<noteq> [] \<longrightarrow> Get st2 k = Some s"
    and m: "mutations evs1 + mutations evs2 \<le> length ?st"
    by blast
  have g1: "Get st1 ''ns/web-tls'' = Some web_tls_done" using k1 h3 h1 by blast
  have g2: "Get st2 ''ns/web-tls'' = Some web_tls_done" using k2 g1 h1 by blast
  have m2: "mutations evs1 + mutations evs2 \<le> 2" using m len by simp
  have ex: "\<exists>st1 evs1 st2 evs2.
         checkSSLChainIssues sample_env ?st = Some (st1, evs1)
         \<and> Get st1 ''ns/web-tls'' = Some web_tls_done
         \<and> checkSSLChainIssues sample_env st1 = Some (st2, evs2)
         \<and> Get st2 ''ns/web-tls'' = Some web_tls_done
         \<and> mutations evs1 + mutations evs2 \<le> 2"
    using s1 g1 s2 g2 m2 by blast
  have all: "checkSSLChainIssues sample_env [(''ns/web-tls'', web_tls_done)] =
       Some ([(''ns/web-tls'', web_tls_done)], [])"
    using checkSSLChainIssues_skips_completed
            [of web_tls_done sample_env "''ns/web-tls''" "[(''ns/web-tls'', web_tls_done)]"] h4
    by blast
  show ?thesis using h1 step h2 ex all by blast
qed

text \<open>
  Claim C7. For a record without a chain path whose chain is resolved and written, the
  step replaces the store entry by the record with the chain path set to
  \<open><dir>/<namespace>-<name>-full-chain.pem\<close> and every other field as it was, and
  enqueues exactly one signal. When the resolution fails, or when the file cannot be
  written, the step leaves the store as it is and enqueues nothing. On a store with one
  entry per key the sweep leaves \<open>completed\<close> of every record in the record's place, and
  the signals it enqueues are as many as the records it completed.
\<close>

theorem checkSSLChainIssues_completion:
  "(FullChainPemFileName secret = []
      \<and> FullChainCert E (PemFileName secret) = Inr data
      \<and> WriteFile E (fullChainPath (DefaultSSLDirectory E) (Namespace secret) (Name secret)) data
      \<longrightarrow>
      chain_step E key secret st =
        (Update key
           (secret\<lparr>FullChainPemFileName :=
              fullChainPath (DefaultSSLDirectory E) (Namespace secret) (Name secret)\<rparr>) st,
         [ChainResolution key (PemFileName secret),
          FileWrite (fullChainPath (DefaultSSLDirectory E) (Namespace secret) (Name secret))
            data True,
          TrackerUpdate key
            (secret\<lparr>FullChainPemFileName :=
               fullChainPath (DefaultSSLDirectory E) (Namespace secret) (Name secret)\<rparr>),
          Enqueue])
      \<and> Get (fst (chain_step E key secret st)) key =
          Some (secret\<lparr>FullChainPemFileName :=
                  fullChainPath (DefaultSSLDirectory E) (Namespace secret) (Name secret)\<rparr>)
      \<and> signals (snd (chain_step E key secret st)) = 1)
   \<and> (FullChainPemFileName secret = [] \<and> FullChainCert E (PemFileName secret) = Inl err \<longrightarrow>
        chain_step E key secret st = (st, [ChainResolution key (PemFileName secret)]))
   \<and> (FullChainPemFileName secret = []
      \<and> FullChainCert E (PemFileName secret) = Inr data
      \<and> \<not> WriteFile E (fullChainPath (DefaultSSLDirectory E) (Namespace secret) (Name secret)) data
      \<longrightarrow>
      chain_step E key secret st =
        (st, [ChainResolution key (PemFileName secret),
              FileWrite (fullChainPath (DefaultSSLDirectory E) (Namespace secret) (Name secret))
                data False]))
   \<and> fullChainPath dir namespace name = dir @ ''/'' @ namespace @ ''-'' @ name @ ''-full-chain.pem''
   \<and> (distinct (ListKeys st) \<longrightarrow>
        (\<exists>evs. checkSSLChainIssues E st = Some (map (\<lambda>(k, s). (k, completed E s)) st, evs)
           \<and> signals evs = length (filter (\<lambda>(k, s). completed E s \<noteq> s) st)))"
proof -
  let ?p = "fullChainPath (DefaultSSLDirectory E) (Namespace secret) (Name secret)"
  have a: "FullChainPemFileName secret = []
      \<and> FullChainCert E (PemFileName secret) = Inr data \<and> WriteFile E ?p data \<longrightarrow>
      chain_step E key secret st =
        (Update key (secret\<lparr>FullChainPemFileName := ?p\<rparr>) st,
         [ChainResolution key (PemFileName secret), FileWrite ?p data True,
          TrackerUpdate key (secret\<lparr>FullChainPemFileName := ?p\<rparr>), Enqueue])"
    by (simp add: chain_step_def merge_into_empty Let_def)
  have a2: "FullChainPemFileName secret = []
      \<and> FullChainCert E (PemFileName secret) = Inr data \<and> WriteFile E ?p data \<longrightarrow>
      Get (fst (chain_step E key secret st)) key = Some (secret\<lparr>FullChainPemFileName := ?p\<rparr>)
      \<and> signals (snd (chain_step E key secret st)) = 1"
    using a by (auto simp: Get_Update signals_def)
  have b: "FullChainPemFileName secret = [] \<and> FullChainCert E (PemFileName secret) = Inl err \<longrightarrow>
        chain_step E key secret st = (st, [ChainResolution key (PemFileName secret)])"
    by (simp add: chain_step_def)
  have c: "FullChainPemFileName secret = []
      \<and> FullChainCert E (PemFileName secret) = Inr data \<and> \<not> WriteFile E ?p data \<longrightarrow>
      chain_step E key secret st =
        (st, [ChainResolution key (PemFileName secret), FileWrite ?p data False])"
    by (simp add: chain_step_def)
  have d: "fullChainPath dir namespace name =
             dir @ ''/'' @ namespace @ ''-'' @ name @ ''-full-chain.pem''"
    by (simp add: fullChainPath_def)
  have e: "distinct (ListKeys st) \<longrightarrow>
        (\<exists>evs. checkSSLChainIssues E st = Some (map (\<lambda>(k, s). (k, completed E s)) st, evs)
           \<and> signals evs = length (filter (\<lambda>(k, s). completed E s \<noteq> s) st))"
    using checkSSLChainIssues_sweep [of st E] sweep_signals [of E st] by simp
  show ?thesis using a a2 b c d e by blast
qed

text \<open>
  Instances of C7 in the sample cluster: the record of \<open>ns/web-tls\<close> is completed, the
  record without a PEM file cannot be resolved, and the chain of the record named
  \<open>readonly\<close> cannot be written.
\<close>

theorem checkSSLChainIssues_completion_witness:
  "FullChainPemFileName web_tls_cert = []
   \<and> FullChainCert sample_env (PemFileName web_tls_cert) =
       Inr ''chain of /ingress-controller/ssl/ns-web-tls.pem''
   \<and> WriteFile sample_env ''/ingress-controller/ssl/ns-web-tls-full-chain.pem''
       ''chain of /ingress-controller/ssl/ns-web-tls.pem''
   \<and> chain_step sample_env ''ns/web-tls'' web_tls_cert [(''ns/web-tls'', web_tls_cert)] =
       ([(''ns/web-tls'', web_tls_done)],
        [ChainResolution ''ns/web-tls'' ''/ingress-controller/ssl/ns-web-tls.pem'',
         FileWrite ''/ingress-controller/ssl/ns-web-tls-full-chain.pem''
           ''chain of /ingress-controller/ssl/ns-web-tls.pem'' True,
         TrackerUpdate ''ns/web-tls'' web_tls_done,
         Enqueue])
   \<and> FullChainPemFileName no_pem_cert = []
   \<and> FullChainCert sample_env (PemFileName no_pem_cert) = Inl ''no PEM file''
   \<and> chain_step sample_env ''ns/no-pem'' no_pem_cert [(''ns/no-pem'', no_pem_cert)] =
       ([(''ns/no-pem'', no_pem_cert)], [ChainResolution ''ns/no-pem'' []])
   \<and> FullChainPemFileName readonly_cert = []
   \<and> \<not> WriteFile sample_env ''/ingress-controller/ssl/ns-readonly-full-chain.pem''
         ''chain of /ingress-controller/ssl/ns-web-tls.pem''
   \<and> chain_step sample_env ''ns/readonly'' readonly_cert [(''ns/readonly'', readonly_cert)] =
       ([(''ns/readonly'', readonly_cert)],
        [ChainResolution ''ns/readonly'' ''/ingress-controller/ssl/ns-web-tls.pem'',
         FileWrite ''/ingress-controller/ssl/ns-readonly-full-chain.pem''
           ''chain of /ingress-controller/ssl/ns-web-tls.pem'' False])
   \<and> distinct (ListKeys [(''ns/web-tls'', web_tls_cert), (''ns/no-pem'', no_pem_cert)])
   \<and> (\<exists>evs. checkSSLChainIssues sample_env
                [(''ns/web-tls'', web_tls_cert), (''ns/no-pem'', no_pem_cert)] =
              Some ([(''ns/web-tls'', web_tls_done), (''ns/no-pem'', no_pem_cert)], evs)
            \<and> signals evs = 1)"
proof -
  let ?pem = "''/ingress-controller/ssl/ns-web-tls.pem''"
  let ?chain = "''chain of /ingress-controller/ssl/ns-web-tls.pem''"
  let ?st = "[(''ns/web-tls'', web_tls_cert), (''ns/no-pem'', no_pem_cert)]"
  have w1: "FullChainPemFileName web_tls_cert = []"
    by (simp add: web_tls_cert_def)
  have w2: "FullChainCert sample_env (PemFileName web_tls_cert) = Inr ?chain"
    by (simp add: sample_env_def web_tls_cert_def)
  have w3: "fullChainPath (DefaultSSLDirectory sample_env) (Namespace web_tls_cert)
              (Name web_tls_cert) = ''/ingress-controller/ssl/ns-web-tls-full-chain.pem''"
    by (simp add: sample_env_def web_tls_cert_def fullChainPath_def)
  have w4: "WriteFile sample_env ''/ingress-controller/ssl/ns-web-tls-full-chain.pem'' ?chain"
    by (simp add: sample_env_def)
  have w5: "web_tls_cert\<lparr>FullChainPemFileName :=
              ''/ingress-controller/ssl/ns-web-tls-full-chain.pem''\<rparr> = web_tls_done"
    by (simp add: web_tls_done_def)
  have w6: "PemFileName web_tls_cert = ?pem"
    by (simp add: web_tls_cert_def)
  have w: "chain_step sample_env ''ns/web-tls'' web_tls_cert [(''ns/web-tls'', web_tls_cert)] =
       ([(''ns/web-tls'', web_tls_done)],
        [ChainResolution ''ns/web-tls'' ?pem,
         FileWrite ''/ingress-controller/ssl/ns-web-tls-full-chain.pem'' ?chain True,
         TrackerUpdate ''ns/web-tls'' web_tls_done,
         Enqueue])"
    using w1 w2 w4
      checkSSLChainIssues_completion
        [of web_tls_cert sample_env ?chain "''ns/web-tls''" "[(''ns/web-tls'', web_tls_cert)]"]
    by (simp add: w3 w5 w6 Update_def)
  have n1: "FullChainPemFileName no_pem_cert = []"
    by (simp add: no_pem_cert_def web_tls_cert_def)
  have n2: "FullChainCert sample_env (PemFileName no_pem_cert) = Inl ''no PEM file''"
    by (simp add: sample_env_def no_pem_cert_def)
  have n3: "PemFileName no_pem_cert = []"
    by (simp add: no_pem_cert_def)
  have n: "chain_step sample_env ''ns/no-pem'' no_pem_cert [(''ns/no-pem'', no_pem_cert)] =
       ([(''ns/no-pem'', no_pem_cert)], [ChainResolution ''ns/no-pem'' []])"
    using n1 n2
      checkSSLChainIssues_completion
        [of no_pem_cert sample_env _ "''ns/no-pem''" "[(''ns/no-pem'', no_pem_cert)]"
          "''no PEM file''"]
    by (simp add: n3)
  have r1: "FullChainPemFileName readonly_cert = []"
    by (simp add: readonly_cert_def web_tls_cert_def)
  have r2: "FullChainCert sample_env (PemFileName readonly_cert) = Inr ?chain"
    by (simp add: sample_env_def readonly_cert_def web_tls_cert_def)
  have r3: "fullChainPath (DefaultSSLDirectory sample_env) (Namespace readonly_cert)
              (Name readonly_cert) = ''/ingress-controller/ssl/ns-readonly-full-chain.pem''"
    by (simp add: sample_env_def readonly_cert_def web_tls_cert_def fullChainPath_def)
  have r4: "\<not> WriteFile sample_env ''/ingress-controller/ssl/ns-readonly-full-chain.pem'' ?chain"
    by (simp add: sample_env_def)
  have r5: "PemFileName readonly_cert = ?pem"
    by (simp add: readonly_cert_def web_tls_cert_def)
  have r: "chain_step sample_env ''ns/readonly'' readonly_cert [(''ns/readonly'', readonly_cert)] =
       ([(''ns/readonly'', readonly_cert)],
        [ChainResolution ''ns/readonly'' ?pem,
         FileWrite ''/ingress-controller/ssl/ns-readonly-full-chain.pem'' ?chain False])"
    using r1 r2 r4
      checkSSLChainIssues_completion
        [of readonly_cert sample_env ?chain "''ns/readonly''" "[(''ns/readonly'', readonly_cert)]"]
    by (simp add: r3 r5)
  have d: "distinct (ListKeys ?st)"
    by (simp add: ListKeys_def)
  have c1: "completed sample_env web_tls_cert = web_tls_done"
    by (simp add: completed_def w1 w2 w3 w4 w5)
  have c2: "completed sample_env no_pem_cert = no_pem_cert"
    by (simp add: completed_def n1 n2)
  have ne: "web_tls_done \<noteq> web_tls_cert"
    by (simp add: web_tls_done_def web_tls_cert_def)
  have s: "\<exists>evs. checkSSLChainIssues sample_env ?st =
              Some ([(''ns/web-tls'', web_tls_done), (''ns/no-pem'', no_pem_cert)], evs)
            \<and> signals evs = 1"
    using d checkSSLChainIssues_completion [of _ sample_env _ _ ?st]
    by (simp add: c1 c2 ne)
  show ?thesis using w1 w2 w4 w n1 n2 n r1 r4 r d s by blast
qed

subsection \<open>checkMissingSecrets\<close>















section \<open>Properties of the request gate\<close>

subsection \<open>The exits and the pattern\<close>

lemma status_exits:
  "status (exit_401 G) = 401 \<and> status (exit_403 G) = 403 \<and> status (exit_404 G) = 404
   \<and> status pdp_exit_403 = 403"
  by (simp add: exit_401_def exit_403_def exit_404_def pdp_exit_403_def)

lemma isspace_space: "lua_isspace CHR '' ''"
  by (simp add: lua_isspace_def)

lemma match_Bearer_token:
  assumes "tok \<noteq> []" and "\<not> lua_isspace (hd tok)"
  shows "match_Bearer (''Bearer '' @ tok) = Some tok"
proof -
  obtain c cs where tok: "tok = c # cs" using assms(1) by (cases tok) auto
  have c: "\<not> lua_isspace c" using assms(2) tok by simp
  have t: "take 6 (''Bearer '' @ tok) = ''Bearer''" by simp
  have d: "drop 6 (''Bearer '' @ tok) = CHR '' '' # c # cs" by (simp add: tok)
  have tw: "takeWhile lua_isspace (CHR '' '' # c # cs) = [CHR '' '']"
    using c by (simp add: isspace_space)
  have dw: "dropWhile lua_isspace (CHR '' '' # c # cs) = c # cs"
    using c by (simp add: isspace_space)
  show ?thesis
    unfolding match_Bearer_def t d tw dw by (simp add: tok)
qed

lemma find_Bearer_token:
  assumes "tok \<noteq> []" and "\<not> lua_isspace (hd tok)"
  shows "find_Bearer (''Bearer '' @ tok) = Some tok"
proof -
  have "find_Bearer (CHR ''B'' # (''earer '' @ tok)) = Some tok"
    using match_Bearer_token [OF assms]
    by (simp only: find_Bearer.simps append_Cons append_Nil option.case)
  then show ?thesis by simp
qed

lemma find_Bearer_Basic: "find_Bearer ''Basic dXNlcjpwYXNz'' = None"
  by (simp add: match_Bearer_def)

lemma find_Bearer_abc: "find_Bearer ''Bearer abc'' = Some ''abc''"
  using find_Bearer_token [of "''abc''"] by (simp add: lua_isspace_def)

subsection \<open>validate_policy_or_exit\<close>

lemma policy_no_credential:
  assumes "policy_credential r = None"
  shows "validate_policy_or_exit E r = denied r []"
proof -
  from assms have "http_Authorization r = None"
    and "cookies r ''cfc-access-token-cookie'' = None"
    by (simp_all add: policy_credential_def split: option.splits)
  then show ?thesis by (simp add: validate_policy_or_exit_def)
qed

lemma policy_with_credential:
  assumes "policy_credential r = Some auth"
  shows "validate_policy_or_exit E r = authz_decision E r auth"
proof (cases "http_Authorization r")
  case None
  with assms obtain t where t: "cookies r ''cfc-access-token-cookie'' = Some t"
    and a: "auth = ''bearer '' @ t"
    by (auto simp: policy_credential_def)
  show ?thesis
    unfolding validate_policy_or_exit_def by (simp add: None t a Let_def)
next
  case (Some h)
  with assms have a: "auth = h" by (simp add: policy_credential_def)
  show ?thesis
    unfolding validate_policy_or_exit_def by (simp add: Some a Let_def)
qed

lemma authz_calls: "http_calls (authz_decision E r auth) = [authz_request E r auth]"
  by (simp add: authz_decision_def denied_def Let_def split: option.splits)

lemma authz_return_iff:
  "(\<exists>v. outcome (authz_decision E r auth) = Return v) \<longleftrightarrow> permitted E (authz_request E r auth)"
  by (auto simp: authz_decision_def permitted_def denied_def Let_def split: option.splits)

lemma authz_permitted:
  "permitted E (authz_request E r auth) \<Longrightarrow>
   outcome (authz_decision E r auth) = Return (LString ''Permit'')"
  by (auto simp: authz_decision_def permitted_def denied_def Let_def split: option.splits)

lemma authz_no_response:
  "request_uri_call E (authz_request E r auth) = None \<Longrightarrow>
   authz_decision E r auth = denied r [authz_request E r auth]"
  by (simp add: authz_decision_def Let_def)

lemma authz_no_body:
  "request_uri_call E (authz_request E r auth) = Some res \<Longrightarrow>
   res_body res = None \<or> res_body res = Some [] \<Longrightarrow>
   authz_decision E r auth = denied r [authz_request E r auth]"
  by (auto simp: authz_decision_def Let_def)

lemma authz_other_decision:
  "request_uri_call E (authz_request E r auth) = Some res \<Longrightarrow> res_body res = Some x \<Longrightarrow>
   cjson_decode E x = Some v \<Longrightarrow> lua_index v ''decision'' = Some d \<Longrightarrow>
   d \<noteq> LString ''Permit'' \<Longrightarrow> \<not> (log_notice E \<and> log_raises d) \<Longrightarrow>
   authz_decision E r auth = denied r [authz_request E r auth]"
  by (auto simp: authz_decision_def Let_def)

lemma authz_decode_error:
  "request_uri_call E (authz_request E r auth) = Some res \<Longrightarrow> res_body res = Some x \<Longrightarrow>
   x \<noteq> [] \<Longrightarrow>
   cjson_decode E x = None
   \<or> (\<exists>v. cjson_decode E x = Some v
         \<and> (lua_index v ''decision'' = None
              \<or> (\<exists>d. lua_index v ''decision'' = Some d \<and> log_notice E \<and> log_raises d))) \<Longrightarrow>
   outcome (authz_decision E r auth) = LuaError"
  by (auto simp: authz_decision_def Let_def)

lemmas gate_defs = sample_gate_def sample_reply_def sample_request_def sample_decode_def
  policy_credential_def permitted_def authz_request_def authz_query_def denied_def
  pdp_exit_403_def ngx_say_def

text \<open>
  Claim C1, as the code has it. Without a credential (no Authorization header and no
  policy cookie) the handler denies with 403 and has made no outbound call. With a
  credential it makes exactly one call, the query to the policy decision point; it
  returns to its caller, letting the request proceed, if and only if the response has a
  non-empty body that decodes to a value whose \<open>decision\<close> is the string \<open>Permit\<close>. A
  failed request, an absent or empty body and a decoded decision other than \<open>Permit\<close>
  that the log call accepts (a string, a number, a boolean, null, or no decision at
  all; any value when the log level excludes notices) end in the 403 denial. A body
  that \<open>cjson.decode\<close> rejects, a decoded value that cannot be indexed, and a decision
  that is a table while notices are logged end in a Lua error: the handler does not
  return, and it does not send the 403 either.
\<close>

theorem validate_policy_fail_closed:
  "(policy_credential r = None \<longrightarrow> validate_policy_or_exit E r = denied r [])
   \<and> outcome (denied r calls) = Exit pdp_exit_403
   \<and> http_calls (denied r []) = []
   \<and> status pdp_exit_403 = 403
   \<and> (policy_credential r = Some auth \<longrightarrow>
        http_calls (validate_policy_or_exit E r) = [authz_request E r auth]
        \<and> ((\<exists>v. outcome (validate_policy_or_exit E r) = Return v)
             \<longleftrightarrow> permitted E (authz_request E r auth))
        \<and> (permitted E (authz_request E r auth) \<longrightarrow>
             outcome (validate_policy_or_exit E r) = Return (LString ''Permit''))
        \<and> (request_uri_call E (authz_request E r auth) = None \<longrightarrow>
             validate_policy_or_exit E r = denied r [authz_request E r auth])
        \<and> (\<forall>res. request_uri_call E (authz_request E r auth) = Some res
               \<and> (res_body res = None \<or> res_body res = Some []) \<longrightarrow>
             validate_policy_or_exit E r = denied r [authz_request E r auth])
        \<and> (\<forall>res x v d. request_uri_call E (authz_request E r auth) = Some res
               \<and> res_body res = Some x \<and> cjson_decode E x = Some v
               \<and> lua_index v ''decision'' = Some d \<and> d \<noteq> LString ''Permit''
               \<and> \<not> (log_notice E \<and> log_raises d) \<longrightarrow>
             validate_policy_or_exit E r = denied r [authz_request E r auth])
        \<and> (\<forall>res x. request_uri_call E (authz_request E r auth) = Some res
               \<and> res_body res = Some x \<and> x \<noteq> []
               \<and> (cjson_decode E x = None
                    \<or> (\<exists>v. cjson_decode E x = Some v
                          \<and> (lua_index v ''decision'' = None
                               \<or> (\<exists>d. lua_index v ''decision'' = Some d
                                      \<and> log_notice E \<and> log_raises d)))) \<longrightarrow>
             outcome (validate_policy_or_exit E r) = LuaError))"
proof -
  have a: "policy_credential r = None \<longrightarrow> validate_policy_or_exit E r = denied r []"
    by (simp add: policy_no_credential)
  have b: "outcome (denied r calls) = Exit pdp_exit_403 \<and> http_calls (denied r []) = []
           \<and> status pdp_exit_403 = 403"
    by (simp add: denied_def status_exits)
  have c: "http_calls (validate_policy_or_exit E r) = [authz_request E r auth]
        \<and> ((\<exists>v. outcome (validate_policy_or_exit E r) = Return v)
             \<longleftrightarrow> permitted E (authz_request E r auth))
        \<and> (permitted E (authz_request E r auth) \<longrightarrow>
             outcome (validate_policy_or_exit E r) = Return (LString ''Permit''))
        \<and> (request_uri_call E (authz_request E r auth) = None \<longrightarrow>
             validate_policy_or_exit E r = denied r [authz_request E r auth])
        \<and> (\<forall>res. request_uri_call E (authz_request E r auth) = Some res
               \<and> (res_body res = None \<or> res_body res = Some []) \<longrightarrow>
             validate_policy_or_exit E r = denied r [authz_request E r auth])
        \<and> (\<forall>res x v d. request_uri_call E (authz_request E r auth) = Some res
               \<and> res_body res = Some x \<and> cjson_decode E x = Some v
               \<and> lua_index v ''decision'' = Some d \<and> d \<noteq> LString ''Permit''
               \<and> \<not> (log_notice E \<and> log_raises d) \<longrightarrow>
             validate_policy_or_exit E r = denied r [authz_request E r auth])
        \<and> (\<forall>res x. request_uri_call E (authz_request E r auth) = Some res
               \<and> res_body res = Some x \<and> x \<noteq> []
               \<and> (cjson_decode E x = None
                    \<or> (\<exists>v. cjson_decode E x = Some v
                          \<and> (lua_index v ''decision'' = None
                               \<or> (\<exists>d. lua_index v ''decision'' = Some d
                                      \<and> log_notice E \<and> log_raises d)))) \<longrightarrow>
             outcome (validate_policy_or_exit E r) = LuaError)"
    if cred: "policy_credential r = Some auth"
  proof -
    have eq: "validate_policy_or_exit E r = authz_decision E r auth"
      using cred by (rule policy_with_credential)
    show ?thesis
      unfolding eq
      using authz_calls [of E r auth] authz_return_iff [of E r auth]
        authz_permitted [of E r auth] authz_no_response [of E r auth]
        authz_no_body [of E r auth] authz_other_decision [of E r auth]
        authz_decode_error [of E r auth]
      by blast
  qed
  show ?thesis using a b c by blast
qed

text \<open>
  Instances of C1: a request with neither header nor cookie is denied without a call;
  with a bearer header the answer \<open>Permit\<close> lets the request proceed, the answer \<open>Deny\<close>
  and a failed call are denied with 403.
\<close>

theorem validate_policy_fail_closed_witness:
  \<open>policy_credential (sample_request None Map.empty) = None
   \<and> validate_policy_or_exit (sample_gate None) (sample_request None Map.empty) =
       denied (sample_request None Map.empty) []
   \<and> policy_credential (sample_request (Some ''Bearer abc'') Map.empty) = Some ''Bearer abc''
   \<and> permitted (sample_gate (sample_reply ''{"decision":"Permit"}''))
       (authz_request (sample_gate (sample_reply ''{"decision":"Permit"}''))
          (sample_request (Some ''Bearer abc'') Map.empty) ''Bearer abc'')
   \<and> outcome (validate_policy_or_exit (sample_gate (sample_reply ''{"decision":"Permit"}''))
                (sample_request (Some ''Bearer abc'') Map.empty)) =
       Return (LString ''Permit'')
   \<and> outcome (validate_policy_or_exit (sample_gate (sample_reply ''{"decision":"Deny"}''))
                (sample_request (Some ''Bearer abc'') Map.empty)) =
       Exit pdp_exit_403
   \<and> outcome (validate_policy_or_exit (sample_gate None)
                (sample_request (Some ''Bearer abc'') Map.empty)) =
       Exit pdp_exit_403
   \<and> log_notice (sample_gate (sample_reply ''{"decision":{}}''))
   \<and> log_raises (LTable [])
   \<and> outcome (validate_policy_or_exit (sample_gate (sample_reply ''{"decision":{}}''))
                (sample_request (Some ''Bearer abc'') Map.empty)) =
       LuaError\<close>
proof -
  let ?anon = "sample_request None Map.empty"
  let ?r = "sample_request (Some ''Bearer abc'') Map.empty"
  let ?P = \<open>sample_gate (sample_reply ''{"decision":"Permit"}'')\<close>
  let ?D = \<open>sample_gate (sample_reply ''{"decision":"Deny"}'')\<close>
  have c0: "policy_credential ?anon = None"
    by (simp add: policy_credential_def sample_request_def)
  have c1: "policy_credential ?r = Some ''Bearer abc''"
    by (simp add: policy_credential_def sample_request_def)
  have p: "permitted ?P (authz_request ?P ?r ''Bearer abc'')"
    by (simp add: permitted_def sample_gate_def sample_reply_def sample_decode_def)
  have d1: \<open>request_uri_call ?D (authz_request ?D ?r ''Bearer abc'') =
              Some \<lparr>res_status = 200, res_body = Some ''{"decision":"Deny"}''\<rparr>\<close>
    by (simp add: sample_gate_def sample_reply_def)
  have d2: \<open>res_body \<lparr>res_status = 200, res_body = Some ''{"decision":"Deny"}''\<rparr> =
              Some ''{"decision":"Deny"}''\<close>
    by simp
  have d3: \<open>cjson_decode ?D ''{"decision":"Deny"}'' =
              Some (LTable [(''decision'', LString ''Deny'')])\<close>
    by (simp add: sample_gate_def sample_decode_def)
  have d4: "lua_index (LTable [(''decision'', LString ''Deny'')]) ''decision'' =
              Some (LString ''Deny'')"
    by simp
  have d5: "LString ''Deny'' \<noteq> LString ''Permit''"
    by simp
  have d6: "\<not> (log_notice ?D \<and> log_raises (LString ''Deny''))"
    by simp
  let ?T = \<open>sample_gate (sample_reply ''{"decision":{}}'')\<close>
  have e1: \<open>request_uri_call ?T (authz_request ?T ?r ''Bearer abc'') =
              Some \<lparr>res_status = 200, res_body = Some ''{"decision":{}}''\<rparr>\<close>
    by (simp add: sample_gate_def sample_reply_def)
  have e2: \<open>res_body \<lparr>res_status = 200, res_body = Some ''{"decision":{}}''\<rparr> =
              Some ''{"decision":{}}''\<close>
    by simp
  have e3: \<open>''{"decision":{}}'' \<noteq> []\<close>
    by simp
  have e4: \<open>cjson_decode ?T ''{"decision":{}}'' = Some (LTable [(''decision'', LTable [])])\<close>
    by (simp add: sample_gate_def sample_decode_def)
  have e5: "lua_index (LTable [(''decision'', LTable [])]) ''decision'' = Some (LTable [])"
    by simp
  have e6: "log_notice ?T"
    by (simp add: sample_gate_def)
  have e7: "log_raises (LTable [])"
    by simp
  have n1: "request_uri_call (sample_gate None) (authz_request (sample_gate None) ?r ''Bearer abc'') = None"
    by (simp add: sample_gate_def)
  have t0: "validate_policy_or_exit (sample_gate None) ?anon = denied ?anon []"
    using c0 validate_policy_fail_closed [of ?anon "sample_gate None"] by blast
  have tp: "outcome (validate_policy_or_exit ?P ?r) = Return (LString ''Permit'')"
    using c1 p validate_policy_fail_closed [of ?r ?P _ "''Bearer abc''"] by blast
  have td: "validate_policy_or_exit ?D ?r = denied ?r [authz_request ?D ?r ''Bearer abc'']"
    using c1 d1 d2 d3 d4 d5 d6 validate_policy_fail_closed [of ?r ?D _ "''Bearer abc''"]
    by blast
  have te: "outcome (validate_policy_or_exit ?T ?r) = LuaError"
    using c1 e1 e2 e3 e4 e5 e6 e7 validate_policy_fail_closed [of ?r ?T _ "''Bearer abc''"]
    by blast
  have tn: "validate_policy_or_exit (sample_gate None) ?r =
              denied ?r [authz_request (sample_gate None) ?r ''Bearer abc'']"
    using c1 n1 validate_policy_fail_closed [of ?r "sample_gate None" _ "''Bearer abc''"] by blast
  show ?thesis using c0 t0 c1 p tp td tn e6 e7 te by (simp add: denied_def)
qed

text \<open>
  The claim C1 as the spec words it fails on a payload that is not JSON: the policy
  decision point is answered for by a gateway with an HTML page, \<open>cjson.decode\<close>
  raises, and the handler ends in the Lua error instead of the 403 denial.
\<close>

theorem validate_policy_malformed_counterexample:
  \<open>policy_credential (sample_request (Some ''Bearer abc'') Map.empty) = Some ''Bearer abc''
   \<and> request_uri_call (sample_gate (sample_reply ''<html>Bad Gateway</html>''))
       (authz_request (sample_gate (sample_reply ''<html>Bad Gateway</html>''))
          (sample_request (Some ''Bearer abc'') Map.empty) ''Bearer abc'') =
       Some \<lparr>res_status = 200, res_body = Some ''<html>Bad Gateway</html>''\<rparr>
   \<and> cjson_decode (sample_gate (sample_reply ''<html>Bad Gateway</html>''))
       ''<html>Bad Gateway</html>'' = None
   \<and> outcome (validate_policy_or_exit (sample_gate (sample_reply ''<html>Bad Gateway</html>''))
                (sample_request (Some ''Bearer abc'') Map.empty)) = LuaError
   \<and> outcome (validate_policy_or_exit (sample_gate (sample_reply ''<html>Bad Gateway</html>''))
                (sample_request (Some ''Bearer abc'') Map.empty)) \<noteq> Exit pdp_exit_403\<close>
  by (simp add: validate_policy_or_exit_def authz_decision_def policy_credential_def
      sample_gate_def sample_reply_def sample_request_def sample_decode_def Let_def)

subsection \<open>validate_access_token_or_exit and validate_id_token_or_exit\<close>

lemma exchange_calls: "http_calls (userinfo_exchange E r tok) = [userinfo_request tok]"
  by (simp add: userinfo_exchange_def Let_def split: option.splits)

lemma exchange_req_after: "req_after (userinfo_exchange E r tok) = r"
  by (simp add: userinfo_exchange_def Let_def split: option.splits)

lemma exchange_outcome_indep:
  "outcome (userinfo_exchange E r tok) = outcome (userinfo_exchange E r' tok)"
  by (simp add: userinfo_exchange_def Let_def split: option.splits)

lemma exchange_no_response:
  "request_uri_call E (userinfo_request tok) = None \<Longrightarrow>
   outcome (userinfo_exchange E r tok) = Exit (exit_401 (pages E))"
  by (simp add: userinfo_exchange_def Let_def)

lemma exchange_no_body:
  "request_uri_call E (userinfo_request tok) = Some res \<Longrightarrow>
   res_body res = None \<or> res_body res = Some [] \<Longrightarrow>
   outcome (userinfo_exchange E r tok) = Exit (exit_401 (pages E))"
  by (auto simp: userinfo_exchange_def Let_def)

lemma exchange_value:
  "request_uri_call E (userinfo_request tok) = Some res \<Longrightarrow> res_body res = Some x \<Longrightarrow>
   x \<noteq> [] \<Longrightarrow> cjson_decode E x = Some v \<Longrightarrow> lua_index v ''sub'' = Some d \<Longrightarrow>
   outcome (userinfo_exchange E r tok) =
     (if log_notice E \<and> log_raises d then LuaError else Return d)"
  by (simp add: userinfo_exchange_def Let_def)

lemma index_object:
  "lua_index (LTable entries) name =
     Some (case map_of entries name of None \<Rightarrow> LNil | Some s \<Rightarrow> s)"
  by simp

lemma access_header:
  "http_Authorization r = Some h \<Longrightarrow>
   validate_access_token_or_exit E r =
     (case find_Bearer h of
        None \<Rightarrow> \<lparr>outcome = Exit (exit_401 (pages E)), req_after = r, http_calls = []\<rparr>
      | Some tok \<Rightarrow> userinfo_exchange E r tok)"
  by (simp add: validate_access_token_or_exit_def split: option.splits)

lemma id_header:
  "http_Authorization r = Some h \<Longrightarrow>
   validate_id_token_or_exit E r =
     (case find_Bearer h of
        None \<Rightarrow> \<lparr>outcome = Exit (exit_401 (pages E)), req_after = r, http_calls = []\<rparr>
      | Some tok \<Rightarrow> \<lparr>outcome = Return LNil, req_after = r, http_calls = []\<rparr>)"
  by (simp add: validate_id_token_or_exit_def split: option.splits)

lemma access_cookie:
  "http_Authorization r = None \<Longrightarrow> cookies r ''cfc-acs-auth-cookie'' = Some t \<Longrightarrow>
   validate_access_token_or_exit E r =
     userinfo_exchange E (r\<lparr>http_Authorization := Some (''Bearer '' @ t)\<rparr>) t"
  by (simp add: validate_access_token_or_exit_def)

lemma id_cookie:
  "http_Authorization r = None \<Longrightarrow> cookies r ''cfc-acs-info-cookie'' = Some t \<Longrightarrow>
   validate_id_token_or_exit E r =
     \<lparr>outcome = Return LNil, req_after = r\<lparr>http_Authorization := Some (''Bearer '' @ t)\<rparr>,
      http_calls = []\<rparr>"
  by (simp add: validate_id_token_or_exit_def)

lemma access_no_token:
  assumes "extract_token ''cfc-acs-auth-cookie'' r = None"
  shows "outcome (validate_access_token_or_exit E r) = Exit (exit_401 (pages E))
         \<and> http_calls (validate_access_token_or_exit E r) = []"
proof (cases "http_Authorization r")
  case None
  with assms have "cookies r ''cfc-acs-auth-cookie'' = None"
    by (simp add: extract_token_def)
  then show ?thesis by (simp add: validate_access_token_or_exit_def None)
next
  case (Some h)
  with assms have "find_Bearer h = None" by (simp add: extract_token_def)
  then show ?thesis by (simp add: validate_access_token_or_exit_def Some)
qed

lemma access_with_token:
  assumes "extract_token ''cfc-acs-auth-cookie'' r = Some tok"
  shows "\<exists>r1. validate_access_token_or_exit E r = userinfo_exchange E r1 tok"
proof (cases "http_Authorization r")
  case None
  with assms have "cookies r ''cfc-acs-auth-cookie'' = Some tok"
    by (simp add: extract_token_def)
  then have "validate_access_token_or_exit E r =
               userinfo_exchange E (r\<lparr>http_Authorization := Some (''Bearer '' @ tok)\<rparr>) tok"
    using None by (rule access_cookie [rotated])
  then show ?thesis by blast
next
  case (Some h)
  with assms have "find_Bearer h = Some tok" by (simp add: extract_token_def)
  then have "validate_access_token_or_exit E r = userinfo_exchange E r tok"
    by (simp add: access_header [OF Some])
  then show ?thesis by blast
qed

text \<open>
  Claim C4, as the code has it. When no token is found (no bearer capture in the
  header, or no header and no access cookie) the handler denies with 401 and has made
  no outbound call. With a token it posts \<open>access_token=<token>\<close> to the identity
  provider, once; it denies with 401 when that request fails and when the body of the
  response is absent or empty. When the body decodes and the decoded value can be
  indexed, the handler logs the value found under \<open>sub\<close> and returns it to its caller;
  for a JSON object that is the value of the field, and nil when the object has no such
  field: the handler itself does not deny in that case. When that value is one the log
  call refuses (a table, or a function) and notices are logged, the handler ends in a
  Lua error instead of returning.
\<close>

theorem validate_access_token_exchange:
  "(extract_token ''cfc-acs-auth-cookie'' r = None \<longrightarrow>
      outcome (validate_access_token_or_exit E r) = Exit (exit_401 (pages E))
      \<and> http_calls (validate_access_token_or_exit E r) = [])
   \<and> status (exit_401 (pages E)) = 401
   \<and> (extract_token ''cfc-acs-auth-cookie'' r = Some tok \<longrightarrow>
        http_calls (validate_access_token_or_exit E r) = [userinfo_request tok]
        \<and> http_body (userinfo_request tok) = ''access_token='' @ tok
        \<and> (request_uri_call E (userinfo_request tok) = None \<longrightarrow>
             outcome (validate_access_token_or_exit E r) = Exit (exit_401 (pages E)))
        \<and> (\<forall>res. request_uri_call E (userinfo_request tok) = Some res
               \<and> (res_body res = None \<or> res_body res = Some []) \<longrightarrow>
             outcome (validate_access_token_or_exit E r) = Exit (exit_401 (pages E)))
        \<and> (\<forall>res x v d. request_uri_call E (userinfo_request tok) = Some res
               \<and> res_body res = Some x \<and> x \<noteq> []
               \<and> cjson_decode E x = Some v \<and> lua_index v ''sub'' = Some d
               \<and> \<not> (log_notice E \<and> log_raises d) \<longrightarrow>
             outcome (validate_access_token_or_exit E r) = Return d)
        \<and> (\<forall>res x v d. request_uri_call E (userinfo_request tok) = Some res
               \<and> res_body res = Some x \<and> x \<noteq> []
               \<and> cjson_decode E x = Some v \<and> lua_index v ''sub'' = Some d
               \<and> log_notice E \<and> log_raises d \<longrightarrow>
             outcome (validate_access_token_or_exit E r) = LuaError)
        \<and> (\<forall>entries. lua_index (LTable entries) ''sub'' =
               Some (case map_of entries ''sub'' of None \<Rightarrow> LNil | Some s \<Rightarrow> s)))"
proof -
  have a: "extract_token ''cfc-acs-auth-cookie'' r = None \<longrightarrow>
      outcome (validate_access_token_or_exit E r) = Exit (exit_401 (pages E))
      \<and> http_calls (validate_access_token_or_exit E r) = []"
    using access_no_token by blast
  have b: "status (exit_401 (pages E)) = 401"
    by (simp add: status_exits)
  have c: "http_calls (validate_access_token_or_exit E r) = [userinfo_request tok]
        \<and> http_body (userinfo_request tok) = ''access_token='' @ tok
        \<and> (request_uri_call E (userinfo_request tok) = None \<longrightarrow>
             outcome (validate_access_token_or_exit E r) = Exit (exit_401 (pages E)))
        \<and> (\<forall>res. request_uri_call E (userinfo_request tok) = Some res
               \<and> (res_body res = None \<or> res_body res = Some []) \<longrightarrow>
             outcome (validate_access_token_or_exit E r) = Exit (exit_401 (pages E)))
        \<and> (\<forall>res x v d. request_uri_call E (userinfo_request tok) = Some res
               \<and> res_body res = Some x \<and> x \<noteq> []
               \<and> cjson_decode E x = Some v \<and> lua_index v ''sub'' = Some d
               \<and> \<not> (log_notice E \<and> log_raises d) \<longrightarrow>
             outcome (validate_access_token_or_exit E r) = Return d)
        \<and> (\<forall>res x v d. request_uri_call E (userinfo_request tok) = Some res
               \<and> res_body res = Some x \<and> x \<noteq> []
               \<and> cjson_decode E x = Some v \<and> lua_index v ''sub'' = Some d
               \<and> log_notice E \<and> log_raises d \<longrightarrow>
             outcome (validate_access_token_or_exit E r) = LuaError)
        \<and> (\<forall>entries. lua_index (LTable entries) ''sub'' =
               Some (case map_of entries ''sub'' of None \<Rightarrow> LNil | Some s \<Rightarrow> s))"
    if t: "extract_token ''cfc-acs-auth-cookie'' r = Some tok"
  proof -
    obtain r1 where eq: "validate_access_token_or_exit E r = userinfo_exchange E r1 tok"
      using access_with_token [OF t] by blast
    have body: "http_body (userinfo_request tok) = ''access_token='' @ tok"
      by (simp add: userinfo_request_def)
    have c1: "http_calls (userinfo_exchange E r1 tok) = [userinfo_request tok]"
      by (rule exchange_calls)
    have c2: "request_uri_call E (userinfo_request tok) = None \<longrightarrow>
             outcome (userinfo_exchange E r1 tok) = Exit (exit_401 (pages E))"
      using exchange_no_response [of E tok r1] by blast
    have c3: "\<forall>res. request_uri_call E (userinfo_request tok) = Some res
               \<and> (res_body res = None \<or> res_body res = Some []) \<longrightarrow>
             outcome (userinfo_exchange E r1 tok) = Exit (exit_401 (pages E))"
      using exchange_no_body [of E tok _ r1] by blast
    have c4: "\<forall>res x v d. request_uri_call E (userinfo_request tok) = Some res
               \<and> res_body res = Some x \<and> x \<noteq> []
               \<and> cjson_decode E x = Some v \<and> lua_index v ''sub'' = Some d
               \<and> \<not> (log_notice E \<and> log_raises d) \<longrightarrow>
             outcome (userinfo_exchange E r1 tok) = Return d"
      by (simp add: exchange_value [of E tok _ _ _ _ r1])
    have c5: "\<forall>res x v d. request_uri_call E (userinfo_request tok) = Some res
               \<and> res_body res = Some x \<and> x \<noteq> []
               \<and> cjson_decode E x = Some v \<and> lua_index v ''sub'' = Some d
               \<and> log_notice E \<and> log_raises d \<longrightarrow>
             outcome (userinfo_exchange E r1 tok) = LuaError"
      by (simp add: exchange_value [of E tok _ _ _ _ r1])
    have c6: "\<forall>entries. lua_index (LTable entries) ''sub'' =
               Some (case map_of entries ''sub'' of None \<Rightarrow> LNil | Some s \<Rightarrow> s)"
      by simp
    show ?thesis
      unfolding eq using body c1 c2 c3 c4 c5 c6 by (intro conjI) assumption+
  qed
  show ?thesis using a b c by blast
qed

text \<open>
  Instances of C4: a request with neither header nor cookie is denied with 401 and no
  call; with the access cookie and an answer holding \<open>sub\<close> the handler returns the
  subject; a failed call is denied.
\<close>

theorem validate_access_token_exchange_witness:
  \<open>extract_token ''cfc-acs-auth-cookie'' (sample_request None Map.empty) = None
   \<and> outcome (validate_access_token_or_exit (sample_gate None) (sample_request None Map.empty)) =
       Exit (exit_401 no_pages)
   \<and> http_calls (validate_access_token_or_exit (sample_gate None)
                    (sample_request None Map.empty)) = []
   \<and> extract_token ''cfc-acs-auth-cookie'' (sample_request None session_jar) =
       Some ''access-token''
   \<and> outcome (validate_access_token_or_exit (sample_gate (sample_reply ''{"sub":"alice"}''))
                (sample_request None session_jar)) = Return (LString ''alice'')
   \<and> http_calls (validate_access_token_or_exit (sample_gate (sample_reply ''{"sub":"alice"}''))
                   (sample_request None session_jar)) = [userinfo_request ''access-token'']
   \<and> outcome (validate_access_token_or_exit (sample_gate None)
                (sample_request None session_jar)) = Exit (exit_401 no_pages)
   \<and> log_notice (sample_gate (sample_reply ''{"sub":{"id":1}}''))
   \<and> log_raises (LTable [(''id'', LNumber 1)])
   \<and> outcome (validate_access_token_or_exit (sample_gate (sample_reply ''{"sub":{"id":1}}''))
                (sample_request None session_jar)) = LuaError\<close>
proof -
  let ?anon = "sample_request None Map.empty"
  let ?ses = "sample_request None session_jar"
  let ?A = \<open>sample_gate (sample_reply ''{"sub":"alice"}'')\<close>
  have n: "extract_token ''cfc-acs-auth-cookie'' ?anon = None"
    by (simp add: extract_token_def sample_request_def)
  have t: "extract_token ''cfc-acs-auth-cookie'' ?ses = Some ''access-token''"
    by (simp add: extract_token_def sample_request_def session_jar_def)
  have pg: "pages (sample_gate reply) = no_pages" for reply
    by (simp add: sample_gate_def)
  have a1: \<open>request_uri_call ?A (userinfo_request ''access-token'') =
              Some \<lparr>res_status = 200, res_body = Some ''{"sub":"alice"}''\<rparr>\<close>
    by (simp add: sample_gate_def sample_reply_def)
  have a2: \<open>res_body \<lparr>res_status = 200, res_body = Some ''{"sub":"alice"}''\<rparr> =
              Some ''{"sub":"alice"}''\<close>
    by simp
  have a3: \<open>''{"sub":"alice"}'' \<noteq> []\<close>
    by simp
  have a4: \<open>cjson_decode ?A ''{"sub":"alice"}'' = Some (LTable [(''sub'', LString ''alice'')])\<close>
    by (simp add: sample_gate_def sample_decode_def)
  have a5: "lua_index (LTable [(''sub'', LString ''alice'')]) ''sub'' = Some (LString ''alice'')"
    by simp
  have a6: "\<not> (log_notice ?A \<and> log_raises (LString ''alice''))"
    by simp
  let ?T = \<open>sample_gate (sample_reply ''{"sub":{"id":1}}'')\<close>
  have b1: \<open>request_uri_call ?T (userinfo_request ''access-token'') =
              Some \<lparr>res_status = 200, res_body = Some ''{"sub":{"id":1}}''\<rparr>\<close>
    by (simp add: sample_gate_def sample_reply_def)
  have b2: \<open>res_body \<lparr>res_status = 200, res_body = Some ''{"sub":{"id":1}}''\<rparr> =
              Some ''{"sub":{"id":1}}''\<close>
    by simp
  have b3: \<open>''{"sub":{"id":1}}'' \<noteq> []\<close>
    by simp
  have b4: \<open>cjson_decode ?T ''{"sub":{"id":1}}'' =
              Some (LTable [(''sub'', LTable [(''id'', LNumber 1)])])\<close>
    by (simp add: sample_gate_def sample_decode_def)
  have b5: "lua_index (LTable [(''sub'', LTable [(''id'', LNumber 1)])]) ''sub'' =
              Some (LTable [(''id'', LNumber 1)])"
    by simp
  have b6: "log_notice ?T"
    by (simp add: sample_gate_def)
  have b7: "log_raises (LTable [(''id'', LNumber 1)])"
    by simp
  have f1: "request_uri_call (sample_gate None) (userinfo_request ''access-token'') = None"
    by (simp add: sample_gate_def)
  have r0: "outcome (validate_access_token_or_exit (sample_gate None) ?anon) =
              Exit (exit_401 (pages (sample_gate None)))
            \<and> http_calls (validate_access_token_or_exit (sample_gate None) ?anon) = []"
    using n validate_access_token_exchange [of ?anon "sample_gate None"] by blast
  have r1: "outcome (validate_access_token_or_exit ?A ?ses) = Return (LString ''alice'')
            \<and> http_calls (validate_access_token_or_exit ?A ?ses) =
                [userinfo_request ''access-token'']"
    using t a1 a2 a3 a4 a5 a6
      validate_access_token_exchange [of ?ses ?A "''access-token''"]
    by blast
  have r3: "outcome (validate_access_token_or_exit ?T ?ses) = LuaError"
    using t b1 b2 b3 b4 b5 b6 b7
      validate_access_token_exchange [of ?ses ?T "''access-token''"]
    by blast
  have r2: "outcome (validate_access_token_or_exit (sample_gate None) ?ses) =
              Exit (exit_401 (pages (sample_gate None)))"
    using t f1 validate_access_token_exchange [of ?ses "sample_gate None" "''access-token''"]
    by blast
  show ?thesis using n t r0 r1 r2 b6 b7 r3 by (simp add: pg)
qed

text \<open>
  The claim C4 as the spec words it fails on a response without the subject: the
  identity provider answers \<open>{}\<close>, and the handler returns nil to its caller instead of
  denying with 401.
\<close>

theorem validate_access_token_no_sub_counterexample:
  \<open>extract_token ''cfc-acs-auth-cookie'' (sample_request (Some ''Bearer abc'') Map.empty) =
     Some ''abc''
   \<and> request_uri_call (sample_gate (sample_reply ''{}'')) (userinfo_request ''abc'') =
       Some \<lparr>res_status = 200, res_body = Some ''{}''\<rparr>
   \<and> cjson_decode (sample_gate (sample_reply ''{}'')) ''{}'' = Some (LTable [])
   \<and> lua_index (LTable []) ''sub'' = Some LNil
   \<and> outcome (validate_access_token_or_exit (sample_gate (sample_reply ''{}''))
                (sample_request (Some ''Bearer abc'') Map.empty)) = Return LNil
   \<and> outcome (validate_access_token_or_exit (sample_gate (sample_reply ''{}''))
                (sample_request (Some ''Bearer abc'') Map.empty))
       \<noteq> Exit (exit_401 (pages (sample_gate (sample_reply ''{}''))))\<close>
proof -
  let ?G = "sample_gate (sample_reply ''{}'')"
  let ?R = "sample_request (Some ''Bearer abc'') Map.empty"
  have h: "http_Authorization ?R = Some ''Bearer abc''"
    by (simp add: sample_request_def)
  have t: "extract_token ''cfc-acs-auth-cookie'' ?R = Some ''abc''"
    unfolding extract_token_def h by (simp only: option.case find_Bearer_abc)
  have v: "validate_access_token_or_exit ?G ?R = userinfo_exchange ?G ?R ''abc''"
    using access_header [OF h, of ?G] by (simp only: find_Bearer_abc option.case)
  have c: "request_uri_call ?G (userinfo_request ''abc'') =
             Some \<lparr>res_status = 200, res_body = Some ''{}''\<rparr>"
    by (simp add: sample_gate_def sample_reply_def)
  have d: "cjson_decode ?G ''{}'' = Some (LTable [])"
    by (simp add: sample_gate_def sample_decode_def)
  have i: "lua_index (LTable []) ''sub'' = Some LNil"
    by simp
  have o: "outcome (userinfo_exchange ?G ?R ''abc'') = Return LNil"
    by (simp add: userinfo_exchange_def c d Let_def)
  show ?thesis using t c d i o by (simp add: v)
qed

text \<open>
  Claim C5. With an Authorization header present, what the two handlers do does not
  depend on the cookie jar: outcome and outbound calls are the same for every jar, and
  the request is left as it came. For a header \<open>Bearer <token>\<close> (one space, a token
  that does not start with white space) the token is the one of the header: the
  identity check passes and the access check posts exactly that token. Only when there
  is no header is the cookie read; its value is then the token, and the request gets
  the header \<open>Bearer <value>\<close>.
\<close>

theorem header_precedes_cookie:
  "(http_Authorization r = Some h \<longrightarrow>
      outcome (validate_id_token_or_exit E (r\<lparr>cookies := jar\<rparr>)) =
        outcome (validate_id_token_or_exit E r)
      \<and> req_after (validate_id_token_or_exit E (r\<lparr>cookies := jar\<rparr>)) = r\<lparr>cookies := jar\<rparr>
      \<and> outcome (validate_access_token_or_exit E (r\<lparr>cookies := jar\<rparr>)) =
          outcome (validate_access_token_or_exit E r)
      \<and> http_calls (validate_access_token_or_exit E (r\<lparr>cookies := jar\<rparr>)) =
          http_calls (validate_access_token_or_exit E r)
      \<and> req_after (validate_access_token_or_exit E (r\<lparr>cookies := jar\<rparr>)) = r\<lparr>cookies := jar\<rparr>)
   \<and> (http_Authorization r = Some (''Bearer '' @ tok) \<and> tok \<noteq> [] \<and> \<not> lua_isspace (hd tok) \<longrightarrow>
        extract_token ''cfc-acs-info-cookie'' r = Some tok
        \<and> extract_token ''cfc-acs-auth-cookie'' r = Some tok
        \<and> validate_id_token_or_exit E r =
            \<lparr>outcome = Return LNil, req_after = r, http_calls = []\<rparr>
        \<and> validate_access_token_or_exit E r = userinfo_exchange E r tok
        \<and> http_calls (validate_access_token_or_exit E r) = [userinfo_request tok])
   \<and> (http_Authorization r = None \<and> cookies r ''cfc-acs-info-cookie'' = Some t \<longrightarrow>
        validate_id_token_or_exit E r =
          \<lparr>outcome = Return LNil,
           req_after = r\<lparr>http_Authorization := Some (''Bearer '' @ t)\<rparr>,
           http_calls = []\<rparr>)
   \<and> (http_Authorization r = None \<and> cookies r ''cfc-acs-auth-cookie'' = Some t \<longrightarrow>
        validate_access_token_or_exit E r =
          userinfo_exchange E (r\<lparr>http_Authorization := Some (''Bearer '' @ t)\<rparr>) t
        \<and> req_after (validate_access_token_or_exit E r) =
            r\<lparr>http_Authorization := Some (''Bearer '' @ t)\<rparr>
        \<and> http_calls (validate_access_token_or_exit E r) = [userinfo_request t])"
proof -
  have a: "outcome (validate_id_token_or_exit E (r\<lparr>cookies := jar\<rparr>)) =
        outcome (validate_id_token_or_exit E r)
      \<and> req_after (validate_id_token_or_exit E (r\<lparr>cookies := jar\<rparr>)) = r\<lparr>cookies := jar\<rparr>
      \<and> outcome (validate_access_token_or_exit E (r\<lparr>cookies := jar\<rparr>)) =
          outcome (validate_access_token_or_exit E r)
      \<and> http_calls (validate_access_token_or_exit E (r\<lparr>cookies := jar\<rparr>)) =
          http_calls (validate_access_token_or_exit E r)
      \<and> req_after (validate_access_token_or_exit E (r\<lparr>cookies := jar\<rparr>)) = r\<lparr>cookies := jar\<rparr>"
    if h: "http_Authorization r = Some h"
  proof -
    have h': "http_Authorization (r\<lparr>cookies := jar\<rparr>) = Some h" using h by simp
    show ?thesis
    proof (cases "find_Bearer h")
      case None
      then show ?thesis by (simp add: id_header [OF h] id_header [OF h']
            access_header [OF h] access_header [OF h'])
    next
      case (Some tok)
      then show ?thesis
        using exchange_outcome_indep [of E "r\<lparr>cookies := jar\<rparr>" tok r]
        by (simp add: id_header [OF h] id_header [OF h'] access_header [OF h]
            access_header [OF h'] exchange_calls exchange_req_after)
    qed
  qed
  have b: "extract_token ''cfc-acs-info-cookie'' r = Some tok
        \<and> extract_token ''cfc-acs-auth-cookie'' r = Some tok
        \<and> validate_id_token_or_exit E r =
            \<lparr>outcome = Return LNil, req_after = r, http_calls = []\<rparr>
        \<and> validate_access_token_or_exit E r = userinfo_exchange E r tok
        \<and> http_calls (validate_access_token_or_exit E r) = [userinfo_request tok]"
    if h: "http_Authorization r = Some (''Bearer '' @ tok)" and ne: "tok \<noteq> []"
      and ns: "\<not> lua_isspace (hd tok)"
  proof -
    have f: "find_Bearer (''Bearer '' @ tok) = Some tok"
      using ne ns by (rule find_Bearer_token)
    have i: "validate_id_token_or_exit E r =
               \<lparr>outcome = Return LNil, req_after = r, http_calls = []\<rparr>"
      using id_header [OF h, of E] by (simp only: f option.case)
    have ac: "validate_access_token_or_exit E r = userinfo_exchange E r tok"
      using access_header [OF h, of E] by (simp only: f option.case)
    have e: "extract_token c r = Some tok" for c
      unfolding extract_token_def h by (simp only: f option.case)
    show ?thesis using i ac e exchange_calls [of E r tok] by simp
  qed
  have c: "http_Authorization r = None \<and> cookies r ''cfc-acs-info-cookie'' = Some t \<longrightarrow>
        validate_id_token_or_exit E r =
          \<lparr>outcome = Return LNil,
           req_after = r\<lparr>http_Authorization := Some (''Bearer '' @ t)\<rparr>,
           http_calls = []\<rparr>"
    using id_cookie by blast
  have d: "http_Authorization r = None \<and> cookies r ''cfc-acs-auth-cookie'' = Some t \<longrightarrow>
        validate_access_token_or_exit E r =
          userinfo_exchange E (r\<lparr>http_Authorization := Some (''Bearer '' @ t)\<rparr>) t
        \<and> req_after (validate_access_token_or_exit E r) =
            r\<lparr>http_Authorization := Some (''Bearer '' @ t)\<rparr>
        \<and> http_calls (validate_access_token_or_exit E r) = [userinfo_request t]"
    by (simp add: access_cookie exchange_calls exchange_req_after)
  show ?thesis using a b c d by blast
qed

text \<open>
  Instances of C5: a request with the header \<open>Bearer abc\<close> and both session cookies
  posts the token \<open>abc\<close>, not the cookie value; the same jar without a header posts the
  cookie value and gets the header written.
\<close>

theorem header_precedes_cookie_witness:
  "http_Authorization (sample_request (Some ''Bearer abc'') session_jar) = Some (''Bearer '' @ ''abc'')
   \<and> ''abc'' \<noteq> [] \<and> \<not> lua_isspace (hd ''abc'')
   \<and> cookies (sample_request (Some ''Bearer abc'') session_jar) ''cfc-acs-auth-cookie'' =
       Some ''access-token''
   \<and> http_calls (validate_access_token_or_exit (sample_gate None)
                   (sample_request (Some ''Bearer abc'') session_jar)) =
       [userinfo_request ''abc'']
   \<and> validate_id_token_or_exit (sample_gate None)
       (sample_request (Some ''Bearer abc'') session_jar) =
       \<lparr>outcome = Return LNil,
        req_after = sample_request (Some ''Bearer abc'') session_jar, http_calls = []\<rparr>
   \<and> http_Authorization (sample_request None session_jar) = None
   \<and> http_calls (validate_access_token_or_exit (sample_gate None)
                   (sample_request None session_jar)) =
       [userinfo_request ''access-token'']
   \<and> req_after (validate_access_token_or_exit (sample_gate None)
                   (sample_request None session_jar)) =
       sample_request (Some ''Bearer access-token'') session_jar
   \<and> req_after (validate_id_token_or_exit (sample_gate None)
                   (sample_request None session_jar)) =
       sample_request (Some ''Bearer id-token'') session_jar"
proof -
  let ?hdr = "sample_request (Some ''Bearer abc'') session_jar"
  let ?ses = "sample_request None session_jar"
  have h1: "http_Authorization ?hdr = Some (''Bearer '' @ ''abc'')"
    by (simp add: sample_request_def)
  have h2: "''abc'' \<noteq> [] \<and> \<not> lua_isspace (hd ''abc'')"
    by (simp add: lua_isspace_def)
  have h3: "cookies ?hdr ''cfc-acs-auth-cookie'' = Some ''access-token''"
    by (simp add: sample_request_def session_jar_def)
  have s1: "http_Authorization ?ses = None"
    by (simp add: sample_request_def)
  have s2: "cookies ?ses ''cfc-acs-auth-cookie'' = Some ''access-token''"
    by (simp add: sample_request_def session_jar_def)
  have s3: "cookies ?ses ''cfc-acs-info-cookie'' = Some ''id-token''"
    by (simp add: sample_request_def session_jar_def)
  have u1: "?ses\<lparr>http_Authorization := Some ''Bearer access-token''\<rparr> =
              sample_request (Some ''Bearer access-token'') session_jar"
    by (simp add: sample_request_def)
  have u2: "?ses\<lparr>http_Authorization := Some ''Bearer id-token''\<rparr> =
              sample_request (Some ''Bearer id-token'') session_jar"
    by (simp add: sample_request_def)
  have a: "http_calls (validate_access_token_or_exit (sample_gate None) ?hdr) =
             [userinfo_request ''abc'']
           \<and> validate_id_token_or_exit (sample_gate None) ?hdr =
             \<lparr>outcome = Return LNil, req_after = ?hdr, http_calls = []\<rparr>"
    using h1 h2
      header_precedes_cookie
        [where r = ?hdr and tok = "''abc''" and E = "sample_gate None" and h = "''x''"
           and jar = Map.empty and t = "''t''"]
    by blast
  have b: "http_calls (validate_access_token_or_exit (sample_gate None) ?ses) =
             [userinfo_request ''access-token'']
           \<and> req_after (validate_access_token_or_exit (sample_gate None) ?ses) =
             ?ses\<lparr>http_Authorization := Some (''Bearer '' @ ''access-token'')\<rparr>"
    using s1 s2
      header_precedes_cookie
        [where r = ?ses and tok = "''abc''" and E = "sample_gate None" and h = "''x''"
           and jar = Map.empty and t = "''access-token''"]
    by blast
  have c: "validate_id_token_or_exit (sample_gate None) ?ses =
             \<lparr>outcome = Return LNil,
              req_after = ?ses\<lparr>http_Authorization := Some (''Bearer '' @ ''id-token'')\<rparr>,
              http_calls = []\<rparr>"
    using s1 s3
      header_precedes_cookie
        [where r = ?ses and tok = "''abc''" and E = "sample_gate None" and h = "''x''"
           and jar = Map.empty and t = "''id-token''"]
    by blast
  show ?thesis using h1 h2 h3 s1 a b c by (simp add: u1 u2)
qed

text \<open>
  Claim C10. When the Authorization header is present and the pattern
  \<open>Bearer%s+(.+)\<close> finds no token in it, both handlers deny with 401, make no outbound
  call and leave the request as it came, whatever the cookie jar holds: the cookie is
  not read.
\<close>

theorem malformed_header_denied:
  "(http_Authorization r = Some h \<and> find_Bearer h = None \<longrightarrow>
      validate_id_token_or_exit E (r\<lparr>cookies := jar\<rparr>) =
        \<lparr>outcome = Exit (exit_401 (pages E)), req_after = r\<lparr>cookies := jar\<rparr>, http_calls = []\<rparr>
      \<and> validate_access_token_or_exit E (r\<lparr>cookies := jar\<rparr>) =
        \<lparr>outcome = Exit (exit_401 (pages E)), req_after = r\<lparr>cookies := jar\<rparr>, http_calls = []\<rparr>)
   \<and> status (exit_401 (pages E)) = 401"
proof -
  have "validate_id_token_or_exit E (r\<lparr>cookies := jar\<rparr>) =
        \<lparr>outcome = Exit (exit_401 (pages E)), req_after = r\<lparr>cookies := jar\<rparr>, http_calls = []\<rparr>
      \<and> validate_access_token_or_exit E (r\<lparr>cookies := jar\<rparr>) =
        \<lparr>outcome = Exit (exit_401 (pages E)), req_after = r\<lparr>cookies := jar\<rparr>, http_calls = []\<rparr>"
    if h: "http_Authorization r = Some h" and f: "find_Bearer h = None"
  proof -
    have h': "http_Authorization (r\<lparr>cookies := jar\<rparr>) = Some h" using h by simp
    show ?thesis by (simp add: id_header [OF h'] access_header [OF h'] f)
  qed
  then show ?thesis by (simp add: status_exits)
qed

text \<open>
  An instance of C10: a request with Basic credentials in the header and both session
  cookies in the jar is denied by both handlers.
\<close>

theorem malformed_header_denied_witness:
  "http_Authorization (sample_request (Some ''Basic dXNlcjpwYXNz'') Map.empty) =
     Some ''Basic dXNlcjpwYXNz''
   \<and> find_Bearer ''Basic dXNlcjpwYXNz'' = None
   \<and> cookies (sample_request (Some ''Basic dXNlcjpwYXNz'') session_jar) ''cfc-acs-info-cookie'' =
       Some ''id-token''
   \<and> outcome (validate_id_token_or_exit (sample_gate None)
                (sample_request (Some ''Basic dXNlcjpwYXNz'') session_jar)) =
       Exit (exit_401 no_pages)
   \<and> outcome (validate_access_token_or_exit (sample_gate None)
                (sample_request (Some ''Basic dXNlcjpwYXNz'') session_jar)) =
       Exit (exit_401 no_pages)
   \<and> http_calls (validate_access_token_or_exit (sample_gate None)
                   (sample_request (Some ''Basic dXNlcjpwYXNz'') session_jar)) = []"
proof -
  let ?bare = "sample_request (Some ''Basic dXNlcjpwYXNz'') Map.empty"
  let ?full = "sample_request (Some ''Basic dXNlcjpwYXNz'') session_jar"
  have h: "http_Authorization ?bare = Some ''Basic dXNlcjpwYXNz''"
    by (simp add: sample_request_def)
  have f: "find_Bearer ''Basic dXNlcjpwYXNz'' = None"
    by (rule find_Bearer_Basic)
  have j: "?bare\<lparr>cookies := session_jar\<rparr> = ?full"
    by (simp add: sample_request_def)
  have k: "cookies ?full ''cfc-acs-info-cookie'' = Some ''id-token''"
    by (simp add: sample_request_def session_jar_def)
  have pg: "pages (sample_gate None) = no_pages"
    by (simp add: sample_gate_def)
  have "validate_id_token_or_exit (sample_gate None) (?bare\<lparr>cookies := session_jar\<rparr>) =
          \<lparr>outcome = Exit (exit_401 (pages (sample_gate None))),
           req_after = ?bare\<lparr>cookies := session_jar\<rparr>, http_calls = []\<rparr>
        \<and> validate_access_token_or_exit (sample_gate None) (?bare\<lparr>cookies := session_jar\<rparr>) =
          \<lparr>outcome = Exit (exit_401 (pages (sample_gate None))),
           req_after = ?bare\<lparr>cookies := session_jar\<rparr>, http_calls = []\<rparr>"
    using h f
      malformed_header_denied
        [of ?bare "''Basic dXNlcjpwYXNz''" "sample_gate None" session_jar]
    by blast
  then show ?thesis using h f k by (simp add: j pg)
qed

subsection \<open>The loading block\<close>

lemma load_403:
  "BODY_403_ERROR_RESPONSE (load_error_pages (Some dir) get_file_content G) =
     get_file_content (dir @ ''/404.html'')"
  by (simp add: load_error_pages_def Let_def)

lemma load_404:
  "BODY_404_ERROR_RESPONSE (load_error_pages (Some dir) get_file_content G) =
     (if BODY_404_ERROR_RESPONSE G = None \<or> BODY_404_ERROR_RESPONSE G = Some [] then Some []
      else BODY_404_ERROR_RESPONSE G)"
  by (simp add: load_error_pages_def Let_def)

lemma load_ignores_403_file:
  "load_error_pages (Some dir) (get_file_content(dir @ ''/403.html'' := page)) G =
   load_error_pages (Some dir) get_file_content G"
  by (simp add: load_error_pages_def Let_def)

lemma say_newline_iff: "ngx_say v = [CHR 0x0A] \<longleftrightarrow> v = Some []"
  by (cases v) (simp_all add: ngx_say_def)

text \<open>
  Claim C9, as the code has it. With the error page directory configured, the third
  part of the loading block assigns what it read from \<open>404.html\<close> to the variable of
  the 403 body, overwriting what was read from \<open>403.html\<close>, and never assigns the
  variable of the 404 body from a file. So the 403 response says what \<open>404.html\<close> holds
  (the text \<open>nil\<close> when the file cannot be read), the content of \<open>403.html\<close> has no
  effect on any response, and the body of the 404 response does not depend on
  \<open>404.html\<close>: started from a fresh Lua state it is the empty line. The two responses
  are not configured independently, but their bodies are the same only when
  \<open>404.html\<close> is empty.
\<close>

theorem error_pages_aliased:
  "BODY_403_ERROR_RESPONSE (load_error_pages (Some dir) get_file_content G) =
     get_file_content (dir @ ''/404.html'')
   \<and> body (exit_403 (load_error_pages (Some dir) get_file_content G)) =
       ngx_say (get_file_content (dir @ ''/404.html''))
   \<and> load_error_pages (Some dir) (get_file_content(dir @ ''/403.html'' := page)) G =
       load_error_pages (Some dir) get_file_content G
   \<and> BODY_404_ERROR_RESPONSE (load_error_pages (Some dir) get_file_content G) =
       (if BODY_404_ERROR_RESPONSE G = None \<or> BODY_404_ERROR_RESPONSE G = Some [] then Some []
        else BODY_404_ERROR_RESPONSE G)
   \<and> body (exit_404 (load_error_pages (Some dir) get_file_content no_pages)) = [CHR 0x0A]
   \<and> (body (exit_404 (load_error_pages (Some dir) get_file_content no_pages)) =
        body (exit_403 (load_error_pages (Some dir) get_file_content no_pages))
        \<longleftrightarrow> get_file_content (dir @ ''/404.html'') = Some [])"
proof -
  let ?L = "load_error_pages (Some dir) get_file_content"
  have a: "BODY_403_ERROR_RESPONSE (?L G) = get_file_content (dir @ ''/404.html'')"
    by (rule load_403)
  have b: "body (exit_403 (?L G)) = ngx_say (get_file_content (dir @ ''/404.html''))"
    by (simp add: exit_403_def load_403)
  have c: "load_error_pages (Some dir) (get_file_content(dir @ ''/403.html'' := page)) G = ?L G"
    by (rule load_ignores_403_file)
  have d: "BODY_404_ERROR_RESPONSE (?L G) =
       (if BODY_404_ERROR_RESPONSE G = None \<or> BODY_404_ERROR_RESPONSE G = Some [] then Some []
        else BODY_404_ERROR_RESPONSE G)"
    by (rule load_404)
  have e: "body (exit_404 (?L no_pages)) = [CHR 0x0A]"
    by (simp add: exit_404_def load_404 no_pages_def ngx_say_def)
  have f: "body (exit_403 (?L no_pages)) = ngx_say (get_file_content (dir @ ''/404.html''))"
    by (simp add: exit_403_def load_403)
  have g: "body (exit_404 (?L no_pages)) = body (exit_403 (?L no_pages))
           \<longleftrightarrow> get_file_content (dir @ ''/404.html'') = Some []"
    unfolding e f using say_newline_iff [of "get_file_content (dir @ ''/404.html'')"] by metis
  show ?thesis using a b c d e g by (intro conjI) assumption+
qed

text \<open>
  The claim C9 as the spec words it fails: with three different pages in the
  directory the 403 response says the page of \<open>404.html\<close> and the 404 response says an
  empty line, so the two bodies differ.
\<close>

theorem error_pages_differ_counterexample:
  "sample_files ''/pages/403.html'' = Some ''403 page''
   \<and> sample_files ''/pages/404.html'' = Some ''404 page''
   \<and> body (exit_403 (load_error_pages (Some ''/pages'') sample_files no_pages)) =
       ''404 page'' @ [CHR 0x0A]
   \<and> body (exit_404 (load_error_pages (Some ''/pages'') sample_files no_pages)) = [CHR 0x0A]
   \<and> body (exit_404 (load_error_pages (Some ''/pages'') sample_files no_pages))
       \<noteq> body (exit_403 (load_error_pages (Some ''/pages'') sample_files no_pages))"
  by (simp add: load_error_pages_def Let_def sample_files_def no_pages_def exit_403_def
      exit_404_def ngx_say_def)

end
